theory Spec2Isabelle
  imports Complex_Main "HOL-Library.Word" "HOL-Library.AList"
begin

unbundle bit_operations_syntax

section \<open>The field tree of copybook_parser.py\<close>

text \<open>
  The dataclass \<open>Field\<close> of \<open>copybook_parser.py\<close>. Its scalar attributes are the record
  \<open>field_attrs\<close>; the tree is the datatype \<open>Field\<close>, a node being its attributes and the
  ordered list of its children. The attribute \<open>size\<close> is named \<open>size_f\<close> here. The
  back-reference \<open>parent\<close> and the attributes \<open>value\<close>, \<open>synchronized\<close> and
  \<open>conditions\<close> are read by none of the functions below and are left out.
  \<open>Optional[...]\<close> attributes are options; Python integers are \<open>int\<close>.
\<close>

record field_attrs =
  level :: int
  name :: string
  picture :: "string option"
  usage :: "string option"
  occurs :: "int option"
  redefines :: "string option"
  is_filler :: bool
  is_group :: bool
  justified_right :: bool
  blank_when_zero :: bool
  sign_separate :: bool
  sign_leading :: bool
  size_f :: int
  offset :: int

datatype Field = Field (attrs: field_attrs) (children: "Field list")

text \<open>Python truthiness of an optional string.\<close>

fun truthy_str :: "string option \<Rightarrow> bool" where
  "truthy_str None = False"
| "truthy_str (Some s) = (s \<noteq> [])"

section \<open>Picture sizes\<close>

text \<open>
  \<open>\d\<close> on the characters a picture can hold (the parser's picture pattern admits
  \<open>A-Z\<close>, \<open>0-9\<close>, parentheses, \<open>.\<close>, \<open>,\<close> and \<open>/\<close>) matches the ten ASCII digits;
  \<open>int(m.group(1))\<close> is the decimal value of the digit run.
\<close>

definition is_digit :: "char \<Rightarrow> bool" where
  "is_digit c = (c \<in> set ''0123456789'')"

definition digit_val :: "char \<Rightarrow> int" where
  "digit_val c = of_char c - 48"

definition int_of_digits :: "string \<Rightarrow> int" where
  "int_of_digits ds = foldl (\<lambda>n c. 10 * n + digit_val c) 0 ds"

text \<open>
  \<open>re.sub(r'\((\d+)\)', lambda m: f * int(m.group(1)), s)\<close>: every parenthesised digit
  run is replaced by that many copies of the character \<open>f\<close>; everything else, the
  character in front of the parenthesis included, stays.
\<close>

fun closes_repeat :: "string \<Rightarrow> bool" where
  "closes_repeat [] = False"
| "closes_repeat (d # ds) = (d = CHR '')'')"

function expand_repeat :: "char \<Rightarrow> string \<Rightarrow> string" where
  "expand_repeat f [] = []"
| "expand_repeat f (c # cs) =
     (if c = CHR ''('' \<and> takeWhile is_digit cs \<noteq> [] \<and> closes_repeat (dropWhile is_digit cs)
      then replicate (nat (int_of_digits (takeWhile is_digit cs))) f
             @ expand_repeat f (tl (dropWhile is_digit cs))
      else c # expand_repeat f cs)"
  by pat_completeness auto
termination
proof (relation "measure (\<lambda>(f, s). length s)")
  show "wf (measure (\<lambda>(f, s). length s))" by simp
next
  fix f :: char and c :: char and cs :: string
  have "length (tl (dropWhile is_digit cs)) \<le> length cs"
    using length_dropWhile_le [of is_digit cs] by simp
  then show "((f, tl (dropWhile is_digit cs)), (f, c # cs)) \<in> measure (\<lambda>(f, s). length s)"
    by simp
next
  fix f :: char and c :: char and cs :: string
  show "((f, cs), (f, c # cs)) \<in> measure (\<lambda>(f, s). length s)" by simp
qed

text \<open>\<open>re.sub(r'[A-Z9]', 'X', pic)\<close>, one character at a time.\<close>

definition is_upper :: "char \<Rightarrow> bool" where
  "is_upper c = (65 \<le> (of_char c :: int) \<and> (of_char c :: int) \<le> 90)"

definition to_X :: "char \<Rightarrow> char" where
  "to_X c = (if is_upper c \<or> c = CHR ''9'' then CHR ''X'' else c)"

text \<open>The local \<open>base_size\<close> of \<open>calculate_picture_size\<close>.\<close>

definition base_size :: "string \<Rightarrow> int" where
  "base_size pic = int (length (map to_X (expand_repeat CHR ''X'' pic)))"

definition calculate_picture_size :: "string \<Rightarrow> string option \<Rightarrow> int" where
  "calculate_picture_size pic usg =
     (if usg = Some ''COMP'' \<or> usg = Some ''COMP-4'' \<or> usg = Some ''BINARY'' then
        (if base_size pic \<le> 4 then 2 else if base_size pic \<le> 9 then 4 else 8)
      else if usg = Some ''COMP-1'' then 4
      else if usg = Some ''COMP-2'' then 8
      else if usg = Some ''COMP-3'' \<or> usg = Some ''PACKED-DECIMAL'' then
        (base_size pic + 1) div 2
      else if usg = Some ''COMP-5'' then
        (if base_size pic \<le> 4 then 2 else if base_size pic \<le> 9 then 4 else 8)
      else if usg = Some ''COMP-6'' then (base_size pic + 1) div 2
      else base_size pic)"

text \<open>
  \<open>calculate_field_sizes\<close> sets \<open>size\<close> on the node and, for a group, on every node below
  it, and returns the node's size; the model returns the updated tree, whose root carries
  that size.
\<close>

fun picture_size_of :: "field_attrs \<Rightarrow> int" where
  "picture_size_of a =
     (case picture a of
        None \<Rightarrow> 0
      | Some p \<Rightarrow>
          (case occurs a of
             None \<Rightarrow> calculate_picture_size p (usage a)
           | Some n \<Rightarrow>
               (if n \<noteq> 0 then calculate_picture_size p (usage a) * n
                else calculate_picture_size p (usage a))))"

fun calculate_field_sizes :: "Field \<Rightarrow> Field" where
  "calculate_field_sizes (Field a cs) =
     (if is_group a \<and> cs \<noteq> [] then
        Field (a\<lparr>size_f := sum_list (map (\<lambda>c. size_f (attrs (calculate_field_sizes c))) cs)\<rparr>)
              (map calculate_field_sizes cs)
      else if truthy_str (picture a) then Field (a\<lparr>size_f := picture_size_of a\<rparr>) cs
      else Field (a\<lparr>size_f := 0\<rparr>) cs)"

text \<open>A field as the dataclass constructs it: every attribute at its default.\<close>

definition new_field :: "int \<Rightarrow> string \<Rightarrow> field_attrs" where
  "new_field lv nm =
     \<lparr>level = lv, name = nm, picture = None, usage = None, occurs = None, redefines = None,
      is_filler = False, is_group = False, justified_right = False, blank_when_zero = False,
      sign_separate = False, sign_leading = False, size_f = 0, offset = 0\<rparr>"

section \<open>Field offsets\<close>

text \<open>
  \<open>calculate_field_offsets\<close> sets \<open>offset\<close> on the node and on the nodes below it and
  returns the next free offset. The loop over the children is \<open>offsets_children\<close>: \<open>seen\<close>
  are the children already visited (with their offsets set), the second list those still
  to visit. The REDEFINES target is looked up by name among all children of the group, in
  the state they have at that moment.
\<close>

fun calculate_field_offsets :: "Field \<Rightarrow> int \<Rightarrow> Field \<times> int"
  and offsets_children :: "Field list \<Rightarrow> Field list \<Rightarrow> int \<Rightarrow> Field list \<times> int" where
  "calculate_field_offsets (Field a cs) start_offset =
     (if is_group a \<and> cs \<noteq> [] then
        (case offsets_children [] cs start_offset of
           (cs', next_offset) \<Rightarrow> (Field (a\<lparr>offset := start_offset\<rparr>) cs', next_offset))
      else (Field (a\<lparr>offset := start_offset\<rparr>) cs, start_offset + size_f a))"
| "offsets_children seen [] next_offset = (seen, next_offset)"
| "offsets_children seen (child # rest) next_offset =
     (if truthy_str (redefines (attrs child)) then
        (case find (\<lambda>f. Some (name (attrs f)) = redefines (attrs child)) (seen @ child # rest) of
           Some redefined_field \<Rightarrow>
             offsets_children
               (seen @ [fst (calculate_field_offsets child (offset (attrs redefined_field)))])
               rest next_offset
         | None \<Rightarrow>
             (case calculate_field_offsets child next_offset of
                (child', n) \<Rightarrow> offsets_children (seen @ [child']) rest n))
      else
        (case calculate_field_offsets child next_offset of
           (child', n) \<Rightarrow> offsets_children (seen @ [child']) rest n))"

text \<open>
  A group \<open>G\<close> with the children \<open>A PIC XXXX\<close> and \<open>B REDEFINES A PIC 9999\<close>, as the
  parser builds it (the group flag set, sizes and offsets not yet resolved).
\<close>

definition redefines_group :: Field where
  "redefines_group =
     Field ((new_field 1 ''G'')\<lparr>is_group := True\<rparr>)
       [Field ((new_field 5 ''A'')\<lparr>picture := Some ''XXXX''\<rparr>) [],
        Field ((new_field 5 ''B'')\<lparr>picture := Some ''9999'', redefines := Some ''A''\<rparr>) []]"

text \<open>The sum the specification asks for: the sizes of the children without REDEFINES.\<close>

definition non_redefines_sum :: "Field \<Rightarrow> int" where
  "non_redefines_sum f =
     sum_list (map (\<lambda>c. size_f (attrs c))
       (filter (\<lambda>c. \<not> truthy_str (redefines (attrs c))) (children f)))"


section \<open>Python values, strings and the built-in conversions\<close>

text \<open>
  Bytes are 8-bit words. A Python \<open>str\<close> is a list of code points; every string below
  comes from decoding bytes through a single-byte code page or from formatting numbers,
  so its code points are below 256 and a \<open>char\<close> holds one. A \<open>float\<close> is an IEEE 754
  double: \<open>Finite r\<close> with the rational value \<open>r\<close> of the double (\<open>Finite 0\<close> is the
  positive zero), the negative zero, an infinity with its sign (\<open>True\<close> for the negative
  one), or a NaN. Exceptions that the code lets escape are values of \<open>py_error\<close>
  (\<open>StructError\<close> is \<open>struct.error\<close>).
\<close>

type_synonym byte = "8 word"
type_synonym bytes = "byte list"

datatype py_error = IndexError | TypeError | ValueError | OverflowError | StructError

datatype pyfloat = Finite rat | NegZero | Infinity bool | NaN

datatype pyval =
    PyNone
  | PyStr string
  | PyInt int
  | PyFloat pyfloat
  | PyDict "(string \<times> pyval) list"

text \<open>\<open>str.isspace\<close> on code points below 256, and \<open>strip\<close>, \<open>rstrip\<close> without argument.\<close>

definition py_isspace :: "char \<Rightarrow> bool" where
  "py_isspace c = ((of_char c :: int) \<in> set [9, 10, 11, 12, 13, 28, 29, 30, 31, 32, 133, 160])"

definition py_rstrip :: "string \<Rightarrow> string" where
  "py_rstrip s = rev (dropWhile py_isspace (rev s))"

definition py_strip :: "string \<Rightarrow> string" where
  "py_strip s = py_rstrip (dropWhile py_isspace s)"

text \<open>\<open>s[-n:]\<close> and \<open>s[:-n]\<close> for \<open>n > 0\<close>, \<open>s.ljust(n, c)\<close>, and \<open>s[i:j]\<close> for any integers.\<close>

definition py_last_n :: "nat \<Rightarrow> 'a list \<Rightarrow> 'a list" where
  "py_last_n n s = drop (length s - n) s"

definition py_drop_last_n :: "nat \<Rightarrow> 'a list \<Rightarrow> 'a list" where
  "py_drop_last_n n s = take (length s - n) s"

definition ljust :: "nat \<Rightarrow> char \<Rightarrow> string \<Rightarrow> string" where
  "ljust n c s = s @ replicate (n - length s) c"

definition slice_index :: "int \<Rightarrow> nat \<Rightarrow> nat" where
  "slice_index i n = (if i < 0 then nat (max 0 (i + int n)) else min (nat i) n)"

definition py_slice :: "'a list \<Rightarrow> int \<Rightarrow> int \<Rightarrow> 'a list" where
  "py_slice xs i j = drop (slice_index i (length xs)) (take (slice_index j (length xs)) xs)"

text \<open>\<open>str(n)\<close> for an integer, and \<open>f'{b:02x}'\<close> for a byte.\<close>

function digits_of :: "int \<Rightarrow> string" where
  "digits_of n =
     (if n < 10 then [''0123456789'' ! nat n]
      else digits_of (n div 10) @ [''0123456789'' ! nat (n mod 10)])"
  by pat_completeness auto
termination
  by (relation "measure nat") auto

declare digits_of.simps [simp del]

definition py_str_int :: "int \<Rightarrow> string" where
  "py_str_int i = (if i < 0 then CHR ''-'' # digits_of (- i) else digits_of i)"

definition hex_digit :: "int \<Rightarrow> char" where
  "hex_digit n = ''0123456789abcdef'' ! nat n"

definition hex2 :: "byte \<Rightarrow> string" where
  "hex2 b = [hex_digit (uint b div 16), hex_digit (uint b mod 16)]"

fun join_space :: "string list \<Rightarrow> string" where
  "join_space [] = []"
| "join_space [x] = x"
| "join_space (x # y # ys) = x @ CHR '' '' # join_space (y # ys)"

section \<open>Floating point\<close>

text \<open>
  Rounding to a double, to nearest with ties to even. A positive rational \<open>a / b\<close> lies in
  the binade of \<open>2 ^ floor_log2 a b\<close>; the doubles there are the multiples of
  \<open>2 ^ q\<close> with \<open>q = floor_log2 a b - 52\<close>, and never less than \<open>- 1074\<close>, the exponent
  of the subnormal numbers. A result of \<open>2 ^ 1024\<close> or more is the infinity; a result
  below the smallest subnormal number is a zero, with the sign of the number rounded.
\<close>

function bit_length :: "int \<Rightarrow> int" where
  "bit_length n = (if n \<le> 0 then 0 else 1 + bit_length (n div 2))"
  by pat_completeness auto
termination
  by (relation "measure nat") auto

declare bit_length.simps [simp del]

definition pow2 :: "int \<Rightarrow> rat" where
  "pow2 e = (if 0 \<le> e then 2 ^ nat e else 1 / 2 ^ nat (- e))"

definition round_half_even :: "int \<Rightarrow> int \<Rightarrow> int" where
  "round_half_even num den =
     (if 2 * (num mod den) < den then num div den
      else if den < 2 * (num mod den) then num div den + 1
      else if even (num div den) then num div den
      else num div den + 1)"

definition floor_log2 :: "int \<Rightarrow> int \<Rightarrow> int" where
  "floor_log2 a b =
     (if (if bit_length b \<le> bit_length a
          then b * 2 ^ nat (bit_length a - bit_length b) \<le> a
          else b \<le> a * 2 ^ nat (bit_length b - bit_length a))
      then bit_length a - bit_length b
      else bit_length a - bit_length b - 1)"

text \<open>\<open>a / (b * base ^ q)\<close>, rounded to an integer.\<close>

definition scaled_round :: "int \<Rightarrow> int \<Rightarrow> int \<Rightarrow> int \<Rightarrow> int" where
  "scaled_round base a b q =
     (if 0 \<le> q then round_half_even a (b * base ^ nat q)
      else round_half_even (a * base ^ nat (- q)) b)"

definition round_pos :: "rat \<Rightarrow> pyfloat" where
  "round_pos r =
     (let a = fst (quotient_of r); b = snd (quotient_of r);
          q = max (floor_log2 a b - 52) (- 1074);
          m = scaled_round 2 a b q
      in if 971 < q \<or> (q = 971 \<and> m = 2 ^ 53) then Infinity False
         else Finite (of_int m * pow2 q))"

fun fl_neg :: "pyfloat \<Rightarrow> pyfloat" where
  "fl_neg (Finite r) = (if r = 0 then NegZero else Finite (- r))"
| "fl_neg NegZero = Finite 0"
| "fl_neg (Infinity s) = Infinity (\<not> s)"
| "fl_neg NaN = NaN"

definition round_double :: "rat \<Rightarrow> pyfloat" where
  "round_double r =
     (if r = 0 then Finite 0 else if 0 < r then round_pos r else fl_neg (round_pos (- r)))"

text \<open>
  \<open>format(x, '.pg')\<close> for \<open>p > 0\<close>: the number rounded to \<open>p\<close> significant decimal
  digits, ties to even; with the decimal exponent \<open>x\<close> of the rounded number, the
  scientific form when \<open>x < -4\<close> or \<open>x \<ge> p\<close> and the fixed form otherwise; trailing
  zeros of the fraction, and a point with nothing behind it, are left out.
\<close>

function log10_ge :: "int \<Rightarrow> int \<Rightarrow> int" where
  "log10_ge a b = (if b \<le> 0 \<or> a < 10 * b then 0 else 1 + log10_ge a (10 * b))"
  by pat_completeness auto
termination
  by (relation "measure (\<lambda>(a, b). nat (a - b))") auto

declare log10_ge.simps [simp del]

function log10_lt :: "int \<Rightarrow> int \<Rightarrow> int" where
  "log10_lt a b = (if a \<le> 0 \<or> b \<le> a then 0 else 1 + log10_lt (10 * a) b)"
  by pat_completeness auto
termination
  by (relation "measure (\<lambda>(a, b). nat (b - a))") auto

declare log10_lt.simps [simp del]

definition floor_log10 :: "int \<Rightarrow> int \<Rightarrow> int" where
  "floor_log10 a b = (if b \<le> a then log10_ge a b else - log10_lt a b)"

definition rstrip_zeros :: "string \<Rightarrow> string" where
  "rstrip_zeros s = rev (dropWhile (\<lambda>c. c = CHR ''0'') (rev s))"

definition with_point :: "string \<Rightarrow> string \<Rightarrow> string" where
  "with_point ip fp = (if fp = [] then ip else ip @ CHR ''.'' # fp)"

definition exponent_text :: "int \<Rightarrow> string" where
  "exponent_text x =
     (if x < 0 then CHR ''-'' else CHR ''+'')
       # (if \<bar>x\<bar> < 10 then CHR ''0'' # digits_of \<bar>x\<bar> else digits_of \<bar>x\<bar>)"

definition format_digits :: "nat \<Rightarrow> int \<Rightarrow> string \<Rightarrow> string" where
  "format_digits p x ds =
     (if x < - 4 \<or> int p \<le> x then
        with_point (take 1 ds) (rstrip_zeros (drop 1 ds)) @ CHR ''e'' # exponent_text x
      else if 0 \<le> x then
        with_point (take (nat x + 1) ds) (rstrip_zeros (drop (nat x + 1) ds))
      else ''0.'' @ replicate (nat (- x - 1)) CHR ''0'' @ rstrip_zeros ds)"

definition format_pos :: "nat \<Rightarrow> rat \<Rightarrow> string" where
  "format_pos p r =
     (let a = fst (quotient_of r); b = snd (quotient_of r);
          x = floor_log10 a b;
          m = scaled_round 10 a b (x - int p + 1)
      in if m = 10 ^ p then format_digits p (x + 1) (digits_of (10 ^ (p - 1)))
         else format_digits p x (digits_of m))"

fun format_g :: "nat \<Rightarrow> pyfloat \<Rightarrow> string" where
  "format_g p NaN = ''nan''"
| "format_g p (Infinity s) = (if s then ''-inf'' else ''inf'')"
| "format_g p NegZero = ''-0''"
| "format_g p (Finite r) =
     (if r = 0 then ''0'' else if r < 0 then CHR ''-'' # format_pos p (- r) else format_pos p r)"

section \<open>Numbers from text\<close>

text \<open>
  Underscores in a numeric literal, as \<open>int\<close> and \<open>float\<close> accept them: only between two
  digits. The result is the literal without them; \<open>None\<close> is the \<open>ValueError\<close>.
\<close>

fun drop_underscores :: "char \<Rightarrow> string \<Rightarrow> string option" where
  "drop_underscores prev [] = (if prev = CHR ''_'' then None else Some [])"
| "drop_underscores prev (c # cs) =
     (if c = CHR ''_'' then (if is_digit prev then drop_underscores c cs else None)
      else if prev = CHR ''_'' \<and> \<not> is_digit c then None
      else map_option ((#) c) (drop_underscores c cs))"

text \<open>
  The whitespace that \<open>int\<close> and \<open>float\<close> skip around a number: the ASCII whitespace
  (not the separators \<open>0x1C\<close> to \<open>0x1F\<close>, which \<open>str.strip\<close> does remove) and the
  spaces above 127.
\<close>

definition num_isspace :: "char \<Rightarrow> bool" where
  "num_isspace c = ((of_char c :: int) \<in> set [9, 10, 11, 12, 13, 32, 133, 160])"

definition num_strip :: "string \<Rightarrow> string" where
  "num_strip s = rev (dropWhile num_isspace (rev (dropWhile num_isspace s)))"

text \<open>
  \<open>int(s)\<close> on a string, base 10: surrounding whitespace, an optional sign, at least one
  digit, and no more than 4300 digits, the default of \<open>sys.int_max_str_digits\<close>.
  \<open>None\<close> is the \<open>ValueError\<close>.
\<close>

definition unsigned_int :: "string \<Rightarrow> int option" where
  "unsigned_int s =
     (case drop_underscores (CHR 0x00) s of
        None \<Rightarrow> None
      | Some ds \<Rightarrow>
          if ds \<noteq> [] \<and> list_all is_digit ds \<and> length ds \<le> 4300 then Some (int_of_digits ds)
          else None)"

definition py_int :: "string \<Rightarrow> int option" where
  "py_int s =
     (case num_strip s of
        [] \<Rightarrow> None
      | c # cs \<Rightarrow>
          if c = CHR ''-'' then map_option uminus (unsigned_int cs)
          else if c = CHR ''+'' then unsigned_int cs
          else unsigned_int (c # cs))"

text \<open>
  \<open>float(s)\<close> on a string: surrounding whitespace, underscores between digits, an optional
  sign, then either \<open>inf\<close>, \<open>infinity\<close> or \<open>nan\<close> in any case, or digits with an optional
  point and an optional exponent, with at least one digit in front of the exponent. The
  value is the number written, rounded to a double.
\<close>

definition to_lower :: "char \<Rightarrow> char" where
  "to_lower c =
     (case map_of (zip ''ABCDEFGHIJKLMNOPQRSTUVWXYZ'' ''abcdefghijklmnopqrstuvwxyz'') c of
        Some l \<Rightarrow> l
      | None \<Rightarrow> c)"

definition parse_inf_or_nan :: "bool \<Rightarrow> string \<Rightarrow> pyfloat option" where
  "parse_inf_or_nan negative s =
     (if map to_lower s = ''inf'' \<or> map to_lower s = ''infinity'' then Some (Infinity negative)
      else if map to_lower s = ''nan'' then Some NaN
      else None)"

definition all_digits :: "string \<Rightarrow> bool" where
  "all_digits ds = (ds \<noteq> [] \<and> list_all is_digit ds)"

fun parse_exponent :: "string \<Rightarrow> int option" where
  "parse_exponent [] = Some 0"
| "parse_exponent (c # cs) =
     (if c = CHR ''e'' \<or> c = CHR ''E'' then
        (case cs of
           [] \<Rightarrow> None
         | d # ds \<Rightarrow>
             if d = CHR ''-'' then (if all_digits ds then Some (- int_of_digits ds) else None)
             else if d = CHR ''+'' then (if all_digits ds then Some (int_of_digits ds) else None)
             else if all_digits (d # ds) then Some (int_of_digits (d # ds))
             else None)
      else None)"

definition scale10 :: "rat \<Rightarrow> int \<Rightarrow> rat" where
  "scale10 m e = (if 0 \<le> e then m * 10 ^ nat e else m / 10 ^ nat (- e))"

fun fraction_part :: "string \<Rightarrow> string \<times> string" where
  "fraction_part [] = ([], [])"
| "fraction_part (c # cs) =
     (if c = CHR ''.'' then (takeWhile is_digit cs, dropWhile is_digit cs) else ([], c # cs))"

definition parse_decimal :: "string \<Rightarrow> rat option" where
  "parse_decimal s =
     (let ip = takeWhile is_digit s;
          fp = fst (fraction_part (dropWhile is_digit s));
          rest = snd (fraction_part (dropWhile is_digit s))
      in if ip = [] \<and> fp = [] then None
         else (case parse_exponent rest of
                 None \<Rightarrow> None
               | Some e \<Rightarrow> Some (scale10 (of_int (int_of_digits (ip @ fp))) (e - int (length fp)))))"

definition parse_unsigned_float :: "bool \<Rightarrow> string \<Rightarrow> pyfloat option" where
  "parse_unsigned_float negative s =
     (case parse_inf_or_nan negative s of
        Some x \<Rightarrow> Some x
      | None \<Rightarrow>
          map_option (\<lambda>r. if negative then fl_neg (round_double r) else round_double r)
            (parse_decimal s))"

definition py_float :: "string \<Rightarrow> pyfloat option" where
  "py_float s =
     (case drop_underscores (CHR 0x00) (num_strip s) of
        None \<Rightarrow> None
      | Some [] \<Rightarrow> None
      | Some (c # cs) \<Rightarrow>
          if c = CHR ''-'' then parse_unsigned_float True cs
          else if c = CHR ''+'' then parse_unsigned_float False cs
          else parse_unsigned_float False (c # cs))"

section \<open>Code page 037\<close>

text \<open>
  \<open>data.decode('cp037')\<close>: the character of each byte, from the table of Python's
  \<open>cp037\<close> codec (entry \<open>i\<close> is the code point of byte \<open>i\<close>). The table has an entry for each of the 256 bytes, so decoding never
  fails. The handlers take the encoding as an argument whose default is \<open>cp037\<close>, and
  \<open>cli.py\<close> builds the engine with the default.
\<close>

definition cp037_table :: string where
  "cp037_table =
    [CHR 0x00, CHR 0x01, CHR 0x02, CHR 0x03, CHR 0x9C, CHR 0x09, CHR 0x86, CHR 0x7F,
     CHR 0x97, CHR 0x8D, CHR 0x8E, CHR 0x0B, CHR 0x0C, CHR 0x0D, CHR 0x0E, CHR 0x0F,
     CHR 0x10, CHR 0x11, CHR 0x12, CHR 0x13, CHR 0x9D, CHR 0x85, CHR 0x08, CHR 0x87,
     CHR 0x18, CHR 0x19, CHR 0x92, CHR 0x8F, CHR 0x1C, CHR 0x1D, CHR 0x1E, CHR 0x1F,
     CHR 0x80, CHR 0x81, CHR 0x82, CHR 0x83, CHR 0x84, CHR 0x0A, CHR 0x17, CHR 0x1B,
     CHR 0x88, CHR 0x89, CHR 0x8A, CHR 0x8B, CHR 0x8C, CHR 0x05, CHR 0x06, CHR 0x07,
     CHR 0x90, CHR 0x91, CHR 0x16, CHR 0x93, CHR 0x94, CHR 0x95, CHR 0x96, CHR 0x04,
     CHR 0x98, CHR 0x99, CHR 0x9A, CHR 0x9B, CHR 0x14, CHR 0x15, CHR 0x9E, CHR 0x1A,
     CHR 0x20, CHR 0xA0, CHR 0xE2, CHR 0xE4, CHR 0xE0, CHR 0xE1, CHR 0xE3, CHR 0xE5,
     CHR 0xE7, CHR 0xF1, CHR 0xA2, CHR 0x2E, CHR 0x3C, CHR 0x28, CHR 0x2B, CHR 0x7C,
     CHR 0x26, CHR 0xE9, CHR 0xEA, CHR 0xEB, CHR 0xE8, CHR 0xED, CHR 0xEE, CHR 0xEF,
     CHR 0xEC, CHR 0xDF, CHR 0x21, CHR 0x24, CHR 0x2A, CHR 0x29, CHR 0x3B, CHR 0xAC,
     CHR 0x2D, CHR 0x2F, CHR 0xC2, CHR 0xC4, CHR 0xC0, CHR 0xC1, CHR 0xC3, CHR 0xC5,
     CHR 0xC7, CHR 0xD1, CHR 0xA6, CHR 0x2C, CHR 0x25, CHR 0x5F, CHR 0x3E, CHR 0x3F,
     CHR 0xF8, CHR 0xC9, CHR 0xCA, CHR 0xCB, CHR 0xC8, CHR 0xCD, CHR 0xCE, CHR 0xCF,
     CHR 0xCC, CHR 0x60, CHR 0x3A, CHR 0x23, CHR 0x40, CHR 0x27, CHR 0x3D, CHR 0x22,
     CHR 0xD8, CHR 0x61, CHR 0x62, CHR 0x63, CHR 0x64, CHR 0x65, CHR 0x66, CHR 0x67,
     CHR 0x68, CHR 0x69, CHR 0xAB, CHR 0xBB, CHR 0xF0, CHR 0xFD, CHR 0xFE, CHR 0xB1,
     CHR 0xB0, CHR 0x6A, CHR 0x6B, CHR 0x6C, CHR 0x6D, CHR 0x6E, CHR 0x6F, CHR 0x70,
     CHR 0x71, CHR 0x72, CHR 0xAA, CHR 0xBA, CHR 0xE6, CHR 0xB8, CHR 0xC6, CHR 0xA4,
     CHR 0xB5, CHR 0x7E, CHR 0x73, CHR 0x74, CHR 0x75, CHR 0x76, CHR 0x77, CHR 0x78,
     CHR 0x79, CHR 0x7A, CHR 0xA1, CHR 0xBF, CHR 0xD0, CHR 0xDD, CHR 0xDE, CHR 0xAE,
     CHR 0x5E, CHR 0xA3, CHR 0xA5, CHR 0xB7, CHR 0xA9, CHR 0xA7, CHR 0xB6, CHR 0xBC,
     CHR 0xBD, CHR 0xBE, CHR 0x5B, CHR 0x5D, CHR 0xAF, CHR 0xA8, CHR 0xB4, CHR 0xD7,
     CHR 0x7B, CHR 0x41, CHR 0x42, CHR 0x43, CHR 0x44, CHR 0x45, CHR 0x46, CHR 0x47,
     CHR 0x48, CHR 0x49, CHR 0xAD, CHR 0xF4, CHR 0xF6, CHR 0xF2, CHR 0xF3, CHR 0xF5,
     CHR 0x7D, CHR 0x4A, CHR 0x4B, CHR 0x4C, CHR 0x4D, CHR 0x4E, CHR 0x4F, CHR 0x50,
     CHR 0x51, CHR 0x52, CHR 0xB9, CHR 0xFB, CHR 0xFC, CHR 0xF9, CHR 0xFA, CHR 0xFF,
     CHR 0x5C, CHR 0xF7, CHR 0x53, CHR 0x54, CHR 0x55, CHR 0x56, CHR 0x57, CHR 0x58,
     CHR 0x59, CHR 0x5A, CHR 0xB2, CHR 0xD4, CHR 0xD6, CHR 0xD2, CHR 0xD3, CHR 0xD5,
     CHR 0x30, CHR 0x31, CHR 0x32, CHR 0x33, CHR 0x34, CHR 0x35, CHR 0x36, CHR 0x37,
     CHR 0x38, CHR 0x39, CHR 0xB3, CHR 0xDB, CHR 0xDC, CHR 0xD9, CHR 0xDA, CHR 0x9F]"

definition decode_cp037 :: "bytes \<Rightarrow> string" where
  "decode_cp037 data = map (\<lambda>b. cp037_table ! unat b) data"


section \<open>The handlers of data_types\<close>

subsection \<open>display.py\<close>

definition DisplayHandler_ebcdic_to_ascii :: "bytes \<Rightarrow> field_attrs \<Rightarrow> string" where
  "DisplayHandler_ebcdic_to_ascii data f =
     (let ascii_value = (if justified_right f then py_rstrip (decode_cp037 data)
                         else decode_cp037 data)
      in if blank_when_zero f
            \<and> py_strip ascii_value = replicate (length (py_strip ascii_value)) CHR ''0''
         then replicate (length ascii_value) CHR '' ''
         else ascii_value)"

definition DisplayHandler_extract_from_record :: "bytes \<Rightarrow> field_attrs \<Rightarrow> string" where
  "DisplayHandler_extract_from_record record f =
     DisplayHandler_ebcdic_to_ascii (py_slice record (offset f) (offset f + size_f f)) f"

text \<open>\<open>s[s.find(c)+1:]\<close> for a character \<open>c\<close> that occurs in \<open>s\<close>.\<close>

definition after_first :: "char \<Rightarrow> string \<Rightarrow> string" where
  "after_first c s = tl (dropWhile (\<lambda>x. x \<noteq> c) s)"

definition display_decimal_places :: "string \<Rightarrow> nat" where
  "display_decimal_places pic =
     (if CHR ''V'' \<in> set pic then length (expand_repeat CHR ''9'' (after_first CHR ''V'' pic))
      else if CHR ''.'' \<in> set pic then length (expand_repeat CHR ''9'' (after_first CHR ''.'' pic))
      else 0)"

text \<open>
  The text with the point put in, for \<open>decimal_places > 0\<close>:
  \<open>integer_part = v[:-dp] if len(v) > dp else '0'\<close>,
  \<open>decimal_part = v[-dp:].ljust(dp, '0')\<close>, joined by a point.
\<close>

definition insert_point :: "nat \<Rightarrow> string \<Rightarrow> string" where
  "insert_point dp v =
     (if dp < length v then py_drop_last_n dp v else ''0'')
       @ ''.'' @ ljust dp CHR ''0'' (py_last_n dp v)"

definition DisplayHandler_to_dict_value :: "string \<Rightarrow> field_attrs \<Rightarrow> pyval" where
  "DisplayHandler_to_dict_value ascii_value f =
     (case picture f of
        None \<Rightarrow> PyStr ascii_value
      | Some pic \<Rightarrow>
          if pic \<noteq> [] \<and> (CHR ''X'' \<in> set pic \<or> CHR ''A'' \<in> set pic) then PyStr ascii_value
          else if pic \<noteq> [] \<and> CHR ''9'' \<in> set pic then
            (if CHR ''V'' \<in> set pic \<or> CHR ''.'' \<in> set pic then
               (let text_value =
                      (if CHR ''V'' \<in> set pic \<and> CHR ''.'' \<notin> set ascii_value
                          \<and> 0 < display_decimal_places pic
                       then insert_point (display_decimal_places pic) ascii_value
                       else ascii_value)
                in case py_float text_value of
                     Some x \<Rightarrow> PyFloat x
                   | None \<Rightarrow> PyStr text_value)
             else
               (case py_int ascii_value of
                  Some i \<Rightarrow> PyInt i
                | None \<Rightarrow> PyStr ascii_value))
          else PyStr ascii_value)"

subsection \<open>binary.py\<close>

text \<open>\<open>struct.unpack\<close> with \<open>'>h'\<close>, \<open>'>i'\<close>, \<open>'>q'\<close>: big-endian two's complement.\<close>

definition be_uint :: "bytes \<Rightarrow> int" where
  "be_uint data = foldl (\<lambda>acc b. acc * 256 + uint b) 0 data"

definition be_sint :: "bytes \<Rightarrow> int" where
  "be_sint data =
     (if 2 ^ (8 * length data - 1) \<le> be_uint data then be_uint data - 2 ^ (8 * length data)
      else be_uint data)"

definition BinaryHandler_ebcdic_to_ascii :: "bytes \<Rightarrow> string" where
  "BinaryHandler_ebcdic_to_ascii data =
     (if length data = 2 then py_str_int (be_sint data)
      else if length data = 4 then py_str_int (be_sint data)
      else if length data = 8 then py_str_int (be_sint data)
      else join_space (map hex2 data))"

definition BinaryHandler_to_dict_value :: "string \<Rightarrow> field_attrs \<Rightarrow> pyval" where
  "BinaryHandler_to_dict_value ascii_value f =
     (if (case picture f of
            None \<Rightarrow> False
          | Some pic \<Rightarrow> pic \<noteq> [] \<and> (CHR ''V'' \<in> set pic \<or> CHR ''.'' \<in> set pic))
      then (case py_float ascii_value of
              Some x \<Rightarrow> PyFloat x
            | None \<Rightarrow> PyStr ascii_value)
      else (case py_int ascii_value of
              Some i \<Rightarrow> PyInt i
            | None \<Rightarrow> PyStr ascii_value))"

definition BinaryHandler_extract_from_record :: "bytes \<Rightarrow> field_attrs \<Rightarrow> pyval" where
  "BinaryHandler_extract_from_record record f =
     BinaryHandler_to_dict_value
       (BinaryHandler_ebcdic_to_ascii (py_slice record (offset f) (offset f + size_f f))) f"

subsection \<open>packed_decimal.py\<close>

text \<open>The two nibbles of a byte, each as \<open>str(nibble)\<close>: a nibble above 9 gives two characters.\<close>

definition high_nibble :: "byte \<Rightarrow> int" where
  "high_nibble b = uint (drop_bit 4 b)"

definition low_nibble :: "byte \<Rightarrow> int" where
  "low_nibble b = uint (b AND 0x0F)"

definition nibble_digits :: "byte \<Rightarrow> string" where
  "nibble_digits b = py_str_int (high_nibble b) @ py_str_int (low_nibble b)"

definition PackedDecimalHandler_ebcdic_to_ascii :: "bytes \<Rightarrow> py_error + string" where
  "PackedDecimalHandler_ebcdic_to_ascii data =
     (case rev data of
        [] \<Rightarrow> Inl IndexError
      | last_byte # _ \<Rightarrow>
          (let digits = concat (map nibble_digits (butlast data))
                          @ py_str_int (high_nibble last_byte);
               is_negative = (low_nibble last_byte = 0x0B \<or> low_nibble last_byte = 0x0D)
           in Inr (if is_negative then CHR ''-'' # digits else digits)))"

definition nines_after_V :: "string \<Rightarrow> nat" where
  "nines_after_V pic = length (filter (\<lambda>c. c = CHR ''9'') (after_first CHR ''V'' pic))"

text \<open>
  The text with the point put in, as \<open>packed_decimal.py\<close> and \<open>signed.py\<close> do it: a
  leading minus sign is taken off the integer part and put back in front.
\<close>

definition insert_point_signed :: "nat \<Rightarrow> string \<Rightarrow> string" where
  "insert_point_signed dp v =
     (if take 1 v = ''-'' then
        ''-'' @ (if dp + 1 < length v then drop 1 (py_drop_last_n dp v) else ''0'')
          @ ''.'' @ ljust dp CHR ''0'' (py_last_n dp v)
      else insert_point dp v)"

definition PackedDecimalHandler_to_dict_value :: "string \<Rightarrow> field_attrs \<Rightarrow> py_error + pyval" where
  "PackedDecimalHandler_to_dict_value ascii_value f =
     (case picture f of
        None \<Rightarrow> Inl TypeError
      | Some pic \<Rightarrow>
          Inr (if CHR ''V'' \<in> set pic \<or> CHR ''.'' \<in> set pic then
                 (if CHR ''V'' \<in> set pic \<and> 0 < nines_after_V pic then
                    (case py_float (insert_point_signed (nines_after_V pic) ascii_value) of
                       Some x \<Rightarrow> PyFloat x
                     | None \<Rightarrow> PyStr ascii_value)
                  else
                    (case py_int ascii_value of
                       Some i \<Rightarrow> PyInt i
                     | None \<Rightarrow> PyStr ascii_value))
               else
                 (case py_int ascii_value of
                    Some i \<Rightarrow> PyInt i
                  | None \<Rightarrow> PyStr ascii_value)))"

definition PackedDecimalHandler_extract_from_record :: "bytes \<Rightarrow> field_attrs \<Rightarrow> py_error + pyval" where
  "PackedDecimalHandler_extract_from_record record f =
     (case PackedDecimalHandler_ebcdic_to_ascii (py_slice record (offset f) (offset f + size_f f)) of
        Inl e \<Rightarrow> Inl e
      | Inr ascii_value \<Rightarrow> PackedDecimalHandler_to_dict_value ascii_value f)"

subsection \<open>signed.py\<close>

definition signed_text :: "char \<Rightarrow> string \<Rightarrow> string" where
  "signed_text sign_char v =
     (if sign_char = CHR ''+'' \<or> sign_char = CHR ''C'' then v
      else if sign_char = CHR ''-'' \<or> sign_char = CHR ''D'' then CHR ''-'' # v
      else v)"

definition SignedHandler_ebcdic_to_ascii :: "bytes \<Rightarrow> field_attrs \<Rightarrow> py_error + string" where
  "SignedHandler_ebcdic_to_ascii data f =
     (if sign_separate f then
        (if sign_leading f then
           (case decode_cp037 data of
              [] \<Rightarrow> Inl IndexError
            | sign_char # v \<Rightarrow> Inr (signed_text sign_char v))
         else
           (case rev (decode_cp037 data) of
              [] \<Rightarrow> Inl IndexError
            | sign_char # _ \<Rightarrow> Inr (signed_text sign_char (butlast (decode_cp037 data)))))
      else Inr (decode_cp037 data))"

definition SignedHandler_to_dict_value :: "string \<Rightarrow> field_attrs \<Rightarrow> py_error + pyval" where
  "SignedHandler_to_dict_value ascii_value f =
     (case picture f of
        None \<Rightarrow> Inl TypeError
      | Some pic \<Rightarrow>
          Inr (if CHR ''V'' \<in> set pic \<or> CHR ''.'' \<in> set pic then
                 (if CHR ''V'' \<in> set pic \<and> 0 < nines_after_V pic then
                    (case py_float (insert_point_signed (nines_after_V pic) ascii_value) of
                       Some x \<Rightarrow> PyFloat x
                     | None \<Rightarrow> PyStr ascii_value)
                  else
                    (case py_int ascii_value of
                       Some i \<Rightarrow> PyInt i
                     | None \<Rightarrow> PyStr ascii_value))
               else
                 (case py_int ascii_value of
                    Some i \<Rightarrow> PyInt i
                  | None \<Rightarrow> PyStr ascii_value)))"

definition SignedHandler_extract_from_record :: "bytes \<Rightarrow> field_attrs \<Rightarrow> py_error + pyval" where
  "SignedHandler_extract_from_record record f =
     (case SignedHandler_ebcdic_to_ascii (py_slice record (offset f) (offset f + size_f f)) f of
        Inl e \<Rightarrow> Inl e
      | Inr ascii_value \<Rightarrow> SignedHandler_to_dict_value ascii_value f)"


subsection \<open>native_binary.py\<close>

text \<open>
  \<open>little\<close> is \<open>sys.byteorder == 'little'\<close>, the byte order of the machine the
  converter runs on.
\<close>

definition NativeBinaryHandler_ebcdic_to_ascii :: "bool \<Rightarrow> bytes \<Rightarrow> string" where
  "NativeBinaryHandler_ebcdic_to_ascii little data =
     (if length data = 2 then py_str_int (be_sint (if little then rev data else data))
      else if length data = 4 then py_str_int (be_sint (if little then rev data else data))
      else if length data = 8 then py_str_int (be_sint (if little then rev data else data))
      else join_space (map hex2 data))"

definition NativeBinaryHandler_to_dict_value :: "string \<Rightarrow> field_attrs \<Rightarrow> pyval" where
  "NativeBinaryHandler_to_dict_value ascii_value f =
     (if (case picture f of
            None \<Rightarrow> False
          | Some pic \<Rightarrow> pic \<noteq> [] \<and> (CHR ''V'' \<in> set pic \<or> CHR ''.'' \<in> set pic))
      then (case py_float ascii_value of
              Some x \<Rightarrow> PyFloat x
            | None \<Rightarrow> PyStr ascii_value)
      else (case py_int ascii_value of
              Some i \<Rightarrow> PyInt i
            | None \<Rightarrow> PyStr ascii_value))"

definition NativeBinaryHandler_extract_from_record :: "bool \<Rightarrow> bytes \<Rightarrow> field_attrs \<Rightarrow> pyval" where
  "NativeBinaryHandler_extract_from_record little record f =
     NativeBinaryHandler_to_dict_value
       (NativeBinaryHandler_ebcdic_to_ascii little
          (py_slice record (offset f) (offset f + size_f f))) f"

subsection \<open>unsigned_packed.py\<close>

definition UnsignedPackedHandler_ebcdic_to_ascii :: "bytes \<Rightarrow> string" where
  "UnsignedPackedHandler_ebcdic_to_ascii data =
     (if dropWhile (\<lambda>c. c = CHR ''0'') (concat (map nibble_digits data)) = [] then ''0''
      else dropWhile (\<lambda>c. c = CHR ''0'') (concat (map nibble_digits data)))"

definition UnsignedPackedHandler_to_dict_value :: "string \<Rightarrow> field_attrs \<Rightarrow> pyval" where
  "UnsignedPackedHandler_to_dict_value ascii_value f =
     (case picture f of
        None \<Rightarrow>
          (case py_int ascii_value of
             Some i \<Rightarrow> PyInt i
           | None \<Rightarrow> PyStr ascii_value)
      | Some pic \<Rightarrow>
          if pic \<noteq> [] \<and> (CHR ''V'' \<in> set pic \<or> CHR ''.'' \<in> set pic) then
            (if CHR ''V'' \<in> set pic \<and> 0 < nines_after_V pic then
               (case py_float (insert_point (nines_after_V pic) ascii_value) of
                  Some x \<Rightarrow> PyFloat x
                | None \<Rightarrow> PyStr ascii_value)
             else
               (case py_int ascii_value of
                  Some i \<Rightarrow> PyInt i
                | None \<Rightarrow> PyStr ascii_value))
          else
            (case py_int ascii_value of
               Some i \<Rightarrow> PyInt i
             | None \<Rightarrow> PyStr ascii_value))"

definition UnsignedPackedHandler_extract_from_record :: "bytes \<Rightarrow> field_attrs \<Rightarrow> pyval" where
  "UnsignedPackedHandler_extract_from_record record f =
     UnsignedPackedHandler_to_dict_value
       (UnsignedPackedHandler_ebcdic_to_ascii (py_slice record (offset f) (offset f + size_f f))) f"

subsection \<open>floating_point.py\<close>

text \<open>
  \<open>struct.unpack\<close> with \<open>'>f'\<close> and \<open>'>d'\<close>: the IEEE 754 value of the bytes, with
  \<open>eb\<close> exponent bits and \<open>fb\<close> fraction bits, and \<open>struct.error\<close> when the data has
  not the length of the format.
\<close>

definition unpack_ieee :: "nat \<Rightarrow> nat \<Rightarrow> bytes \<Rightarrow> pyfloat" where
  "unpack_ieee eb fb data =
     (let bits = be_uint data;
          frac = bits mod 2 ^ fb;
          ex = (bits div 2 ^ fb) mod 2 ^ eb;
          negative = ((bits div 2 ^ (eb + fb)) mod 2 = 1);
          bias = 2 ^ (eb - 1) - 1
      in if ex = 2 ^ eb - 1 then (if frac = 0 then Infinity negative else NaN)
         else if negative
           then fl_neg (Finite (if ex = 0 then of_int frac * pow2 (1 - bias - int fb)
                                else of_int (2 ^ fb + frac) * pow2 (ex - bias - int fb)))
           else Finite (if ex = 0 then of_int frac * pow2 (1 - bias - int fb)
                        else of_int (2 ^ fb + frac) * pow2 (ex - bias - int fb)))"

definition struct_unpack_f :: "bytes \<Rightarrow> py_error + pyfloat" where
  "struct_unpack_f data = (if length data = 4 then Inr (unpack_ieee 8 23 data) else Inl StructError)"

definition struct_unpack_d :: "bytes \<Rightarrow> py_error + pyfloat" where
  "struct_unpack_d data = (if length data = 8 then Inr (unpack_ieee 11 52 data) else Inl StructError)"

definition float_text :: "field_attrs \<Rightarrow> pyfloat \<Rightarrow> string" where
  "float_text f v = (if usage f = Some ''COMP-1'' then format_g 7 v else format_g 16 v)"

definition FloatingPointHandler_ebcdic_to_ascii :: "bytes \<Rightarrow> field_attrs \<Rightarrow> py_error + string" where
  "FloatingPointHandler_ebcdic_to_ascii data f =
     (if usage f = Some ''COMP-1'' \<or> length data = 4 then
        (case struct_unpack_f data of
           Inl e \<Rightarrow> Inl e
         | Inr v \<Rightarrow> Inr (float_text f v))
      else if usage f = Some ''COMP-2'' \<or> length data = 8 then
        (case struct_unpack_d data of
           Inl e \<Rightarrow> Inl e
         | Inr v \<Rightarrow> Inr (float_text f v))
      else Inr (join_space (map hex2 data)))"

definition FloatingPointHandler_to_dict_value :: "string \<Rightarrow> field_attrs \<Rightarrow> pyval" where
  "FloatingPointHandler_to_dict_value ascii_value f =
     (case py_float ascii_value of
        Some x \<Rightarrow> PyFloat x
      | None \<Rightarrow> PyStr ascii_value)"

definition FloatingPointHandler_extract_from_record ::
    "bytes \<Rightarrow> field_attrs \<Rightarrow> py_error + pyval" where
  "FloatingPointHandler_extract_from_record record f =
     (case FloatingPointHandler_ebcdic_to_ascii (py_slice record (offset f) (offset f + size_f f)) f of
        Inl e \<Rightarrow> Inl e
      | Inr ascii_value \<Rightarrow> Inr (FloatingPointHandler_to_dict_value ascii_value f))"

section \<open>The record walker of conversion_engine.py\<close>

text \<open>
  \<open>_process_field\<close> fills the dictionary \<open>result\<close>, an association list in insertion
  order here; \<open>result[k] = v\<close> is \<open>AList.update k v\<close>. The loop over the children is
  \<open>process_children\<close>. The argument \<open>extract\<close> stands for
  \<open>get_handler_for_field(field).extract_from_record(record, field, self.encoding)\<close>:
  the registry \<open>get_handler_for_field\<close> is not among the sources, and every handler class
  has the method \<open>extract_from_record\<close>, so the branch without it is never taken. An
  exception of the handler ends the walk. The path arguments only build a string that
  nothing reads and are left out.
\<close>

fun process_field ::
    "(bytes \<Rightarrow> field_attrs \<Rightarrow> py_error + pyval) \<Rightarrow> bytes \<Rightarrow> Field
      \<Rightarrow> (string \<times> pyval) list \<Rightarrow> py_error + (string \<times> pyval) list"
  and process_children ::
    "(bytes \<Rightarrow> field_attrs \<Rightarrow> py_error + pyval) \<Rightarrow> bytes \<Rightarrow> Field list
      \<Rightarrow> (string \<times> pyval) list \<Rightarrow> py_error + (string \<times> pyval) list" where
  "process_field extract record (Field a cs) result =
     (if level a = 0 then process_children extract record cs result
      else if is_filler a then Inr result
      else if level a = 88 then Inr result
      else if is_group a then
        (case process_children extract record cs [] of
           Inl e \<Rightarrow> Inl e
         | Inr group_result \<Rightarrow> Inr (AList.update (name a) (PyDict group_result) result))
      else if truthy_str (picture a) \<or> truthy_str (usage a) then
        (case extract record a of
           Inl e \<Rightarrow> Inl e
         | Inr v \<Rightarrow>
             (if (case occurs a of None \<Rightarrow> False | Some n \<Rightarrow> n \<noteq> 0 \<and> 1 < n)
              then Inr (AList.update (name a) v result)
              else Inr (AList.update (name a) v result)))
      else Inr result)"
| "process_children extract record [] result = Inr result"
| "process_children extract record (c # cs) result =
     (case process_field extract record c result of
        Inl e \<Rightarrow> Inl e
      | Inr result' \<Rightarrow> process_children extract record cs result')"

definition convert ::
    "(bytes \<Rightarrow> field_attrs \<Rightarrow> py_error + pyval) \<Rightarrow> Field \<Rightarrow> bytes
      \<Rightarrow> py_error + (string \<times> pyval) list" where
  "convert extract structure ebcdic_record = process_field extract ebcdic_record structure []"

text \<open>The DISPLAY handler as an \<open>extract\<close>: its \<open>extract_from_record\<close> returns the text.\<close>

definition display_extract :: "bytes \<Rightarrow> field_attrs \<Rightarrow> py_error + pyval" where
  "display_extract record f = Inr (PyStr (DisplayHandler_extract_from_record record f))"

text \<open>
  The copybook \<open>05 ITEM OCCURS 3 TIMES PIC 9(2).\<close> under the root that \<open>parse_copybook\<close>
  creates, before sizes and offsets are resolved, and the same tree resolved.
\<close>

definition occurs_structure :: Field where
  "occurs_structure =
     Field ((new_field 0 ''ROOT'')\<lparr>is_group := True\<rparr>)
       [Field ((new_field 5 ''ITEM'')\<lparr>picture := Some ''9(2)'', occurs := Some 3\<rparr>) []]"

definition resolve :: "Field \<Rightarrow> Field" where
  "resolve tree = fst (calculate_field_offsets (calculate_field_sizes tree) 0)"

section \<open>The record reader of ebcdic_reader.py\<close>

text \<open>
  The reader's state is the part of the file not yet read. \<open>record_length\<close> is the
  property of that name on the optional value given to the constructor; \<open>cli.py\<close> gives
  none. \<open>file_read\<close> is \<open>file.read(n)\<close> on a binary file: everything left for \<open>-1\<close>,
  a \<open>ValueError\<close> for a smaller \<open>n\<close>, at most \<open>n\<close> bytes otherwise. (A length beyond
  what the platform can allocate, which ends in \<open>MemoryError\<close> or \<open>OverflowError\<close>, is
  outside the model.) \<open>read_record\<close> returns the record, or \<open>None\<close>, and the rest of
  the file. \<open>iter_records\<close> is the generator \<open>__iter__\<close>: the list of the records it
  yields, and the exception that ends it, \<open>None\<close> when it ends by itself.
\<close>

definition record_length :: "int option \<Rightarrow> int" where
  "record_length rl = (case rl of None \<Rightarrow> 80 | Some n \<Rightarrow> n)"

definition file_read :: "bytes \<Rightarrow> int \<Rightarrow> py_error + bytes \<times> bytes" where
  "file_read rest n =
     (if n < - 1 then Inl ValueError
      else if n = - 1 then Inr (rest, [])
      else Inr (take (nat n) rest, drop (nat n) rest))"

definition read_record :: "int option \<Rightarrow> bytes \<Rightarrow> py_error + bytes option \<times> bytes" where
  "read_record rl rest =
     (case file_read rest (record_length rl) of
        Inl e \<Rightarrow> Inl e
      | Inr (record, rest') \<Rightarrow>
          if record = [] \<or> int (length record) < record_length rl then Inr (None, rest')
          else Inr (Some record, rest'))"

function iter_records :: "int option \<Rightarrow> bytes \<Rightarrow> bytes list \<times> py_error option" where
  "iter_records rl rest =
     (case read_record rl rest of
        Inl e \<Rightarrow> ([], Some e)
      | Inr (None, rest') \<Rightarrow> ([], None)
      | Inr (Some r, rest') \<Rightarrow>
          (r # fst (iter_records rl rest'), snd (iter_records rl rest')))"
  by pat_completeness auto
termination
proof (relation "measure (\<lambda>(rl, rest). length rest)")
  show "wf (measure (\<lambda>(rl, rest). length rest))" by simp
next
  fix rl :: "int option" and rest rest' r :: bytes and x :: "bytes option \<times> bytes"
    and y :: "bytes option"
  assume "read_record rl rest = Inr x" "(y, rest') = x" "y = Some r"
  then have "read_record rl rest = Inr (Some r, rest')" by simp
  then have "length rest' < length rest"
    by (auto simp: read_record_def file_read_def split: if_splits)
  then show "((rl, rest'), (rl, rest)) \<in> measure (\<lambda>(rl, rest). length rest)"
    by simp
next
  fix rl :: "int option" and rest rest' r :: bytes and x :: "bytes option \<times> bytes"
    and y :: "bytes option"
  assume "read_record rl rest = Inr x" "(y, rest') = x" "y = Some r"
  then have "read_record rl rest = Inr (Some r, rest')" by simp
  then have "length rest' < length rest"
    by (auto simp: read_record_def file_read_def split: if_splits)
  then show "((rl, rest'), (rl, rest)) \<in> measure (\<lambda>(rl, rest). length rest)"
    by simp
qed

declare iter_records.simps [simp del]

section \<open>The error classifier of validation_engine\<close>

text \<open>
  Arithmetic on doubles: the exact result, rounded; the rules of IEEE 754 for zeros,
  infinities and NaN. \<open>fl_rat\<close> is the value of a finite double, \<open>fl_negative\<close> the sign.
\<close>

fun fl_rat :: "pyfloat \<Rightarrow> rat" where
  "fl_rat (Finite r) = r"
| "fl_rat x = 0"

fun fl_finite :: "pyfloat \<Rightarrow> bool" where
  "fl_finite (Finite r) = True"
| "fl_finite NegZero = True"
| "fl_finite x = False"

fun fl_negative :: "pyfloat \<Rightarrow> bool" where
  "fl_negative (Finite r) = (r < 0)"
| "fl_negative NegZero = True"
| "fl_negative (Infinity s) = s"
| "fl_negative NaN = False"

definition fl_mul :: "pyfloat \<Rightarrow> pyfloat \<Rightarrow> pyfloat" where
  "fl_mul x y =
     (if x = NaN \<or> y = NaN then NaN
      else if fl_finite x \<and> fl_finite y then
        (if fl_rat x * fl_rat y = 0
         then (if fl_negative x = fl_negative y then Finite 0 else NegZero)
         else round_double (fl_rat x * fl_rat y))
      else if (fl_finite x \<and> fl_rat x = 0) \<or> (fl_finite y \<and> fl_rat y = 0) then NaN
      else Infinity (fl_negative x \<noteq> fl_negative y))"

definition fl_sub :: "pyfloat \<Rightarrow> pyfloat \<Rightarrow> pyfloat" where
  "fl_sub x y =
     (if x = NaN \<or> y = NaN then NaN
      else if fl_finite x \<and> fl_finite y then
        (if fl_rat x - fl_rat y = 0
         then (if x = NegZero \<and> y = Finite 0 then NegZero else Finite 0)
         else round_double (fl_rat x - fl_rat y))
      else if fl_finite y then x
      else if fl_finite x then fl_neg y
      else if fl_negative x = fl_negative y then NaN
      else x)"

fun fl_abs :: "pyfloat \<Rightarrow> pyfloat" where
  "fl_abs (Finite a) = Finite \<bar>a\<bar>"
| "fl_abs NegZero = Finite 0"
| "fl_abs (Infinity s) = Infinity False"
| "fl_abs NaN = NaN"

definition fl_less :: "pyfloat \<Rightarrow> pyfloat \<Rightarrow> bool" where
  "fl_less x y =
     (if x = NaN \<or> y = NaN then False
      else if fl_finite x \<and> fl_finite y then fl_rat x < fl_rat y
      else if fl_finite y then fl_negative x
      else if fl_finite x then \<not> fl_negative y
      else fl_negative x \<and> \<not> fl_negative y)"

definition fl_eq :: "pyfloat \<Rightarrow> pyfloat \<Rightarrow> bool" where
  "fl_eq x y =
     (if x = NaN \<or> y = NaN then False
      else if fl_finite x \<and> fl_finite y then fl_rat x = fl_rat y
      else if fl_finite x \<or> fl_finite y then False
      else fl_negative x = fl_negative y)"

definition fl_le :: "pyfloat \<Rightarrow> pyfloat \<Rightarrow> bool" where
  "fl_le x y = (fl_less x y \<or> fl_eq x y)"

text \<open>
  Python numbers: an \<open>int\<close> or a \<open>float\<close>. The product and the difference of two ints
  are exact. When a float takes part, an int operand becomes \<open>float(i)\<close> first, which is
  an \<open>OverflowError\<close> for an int beyond the doubles, and the operation is the one on
  doubles. A comparison compares the exact values (\<open>num_exact\<close>), also an int with a
  float.
\<close>

datatype pynum = NInt int | NFloat pyfloat

definition and_then :: "py_error + 'a \<Rightarrow> ('a \<Rightarrow> py_error + 'b) \<Rightarrow> py_error + 'b" where
  "and_then m k = (case m of Inl e \<Rightarrow> Inl e | Inr a \<Rightarrow> k a)"

definition int_to_float :: "int \<Rightarrow> py_error + pyfloat" where
  "int_to_float i =
     (case round_double (of_int i) of
        Infinity s \<Rightarrow> Inl OverflowError
      | x \<Rightarrow> Inr x)"

fun num_float :: "pynum \<Rightarrow> py_error + pyfloat" where
  "num_float (NInt i) = int_to_float i"
| "num_float (NFloat x) = Inr x"

fun num_exact :: "pynum \<Rightarrow> pyfloat" where
  "num_exact (NInt i) = Finite (of_int i)"
| "num_exact (NFloat x) = x"

fun num_mul :: "pynum \<Rightarrow> pynum \<Rightarrow> py_error + pynum" where
  "num_mul (NInt a) (NInt b) = Inr (NInt (a * b))"
| "num_mul x y =
     and_then (num_float x) (\<lambda>a. and_then (num_float y) (\<lambda>b. Inr (NFloat (fl_mul a b))))"

fun num_sub :: "pynum \<Rightarrow> pynum \<Rightarrow> py_error + pynum" where
  "num_sub (NInt a) (NInt b) = Inr (NInt (a - b))"
| "num_sub x y =
     and_then (num_float x) (\<lambda>a. and_then (num_float y) (\<lambda>b. Inr (NFloat (fl_sub a b))))"

fun num_abs :: "pynum \<Rightarrow> pynum" where
  "num_abs (NInt a) = NInt \<bar>a\<bar>"
| "num_abs (NFloat x) = NFloat (fl_abs x)"

text \<open>
  The first component of the classifiers' result, the error type. The second is a
  message for the reader of the report; of it the model keeps the exponent in the message
  of \<open>scale_error\<close>, and the exception of its f-string: every message of
  \<open>classify_numeric_error\<close> prints both values, and printing an \<open>int\<close> of more than
  4300 digits is a \<open>ValueError\<close>.
\<close>

datatype error_type =
    missing_value | type_mismatch | unknown_error
  | sign_error | off_by_one | precision_loss | scale_error nat | numeric_mismatch
  | whitespace_error | case_error | character_encoding | truncation | string_mismatch

fun printable :: "pynum \<Rightarrow> bool" where
  "printable (NInt i) = (length (digits_of \<bar>i\<bar>) \<le> 4300)"
| "printable (NFloat x) = True"

definition with_message :: "pynum \<Rightarrow> pynum \<Rightarrow> error_type \<Rightarrow> py_error + error_type" where
  "with_message value1 value2 t =
     (if printable value1 \<and> printable value2 then Inr t else Inl ValueError)"

text \<open>
  The test of the loop over \<open>range(1, 10)\<close>, for one \<open>i\<close>: the second comparison is
  evaluated only when the first is false. The tolerance is a Python number.
\<close>

definition scale_match :: "pynum \<Rightarrow> pynum \<Rightarrow> pynum \<Rightarrow> nat \<Rightarrow> py_error + bool" where
  "scale_match value1 value2 tolerance i =
     and_then (num_mul value1 (NInt (10 ^ i))) (\<lambda>p.
     and_then (num_sub p value2) (\<lambda>d.
       if fl_less (num_exact (num_abs d)) (num_exact tolerance) then Inr True
       else
         and_then (num_mul value2 (NInt (10 ^ i))) (\<lambda>p'.
         and_then (num_sub value1 p') (\<lambda>d'.
           Inr (fl_less (num_exact (num_abs d')) (num_exact tolerance))))))"

fun scale_loop :: "pynum \<Rightarrow> pynum \<Rightarrow> pynum \<Rightarrow> nat list \<Rightarrow> py_error + error_type" where
  "scale_loop value1 value2 tolerance [] = with_message value1 value2 numeric_mismatch"
| "scale_loop value1 value2 tolerance (i # rest) =
     (case scale_match value1 value2 tolerance i of
        Inl e \<Rightarrow> Inl e
      | Inr m \<Rightarrow>
          if m then with_message value1 value2 (scale_error i)
          else scale_loop value1 value2 tolerance rest)"

definition classify_numeric_error :: "pynum \<Rightarrow> pynum \<Rightarrow> pynum \<Rightarrow> py_error + error_type" where
  "classify_numeric_error value1 value2 tolerance =
     and_then (num_mul value1 value2) (\<lambda>p.
       if fl_less (num_exact p) (Finite 0) then with_message value1 value2 sign_error
       else
         and_then (num_sub value1 value2) (\<lambda>d.
           if fl_eq (num_exact (num_abs d)) (Finite 1) then with_message value1 value2 off_by_one
           else if fl_le (num_exact (num_abs d)) (num_exact tolerance)
             then with_message value1 value2 precision_loss
           else scale_loop value1 value2 tolerance [1..<10]))"

text \<open>\<open>str.lower\<close> on code points below 256.\<close>

definition py_lower :: "char \<Rightarrow> char" where
  "py_lower c =
     (if (192 \<le> (of_char c :: int) \<and> (of_char c :: int) \<le> 222 \<and> (of_char c :: int) \<noteq> 215)
      then char_of ((of_char c :: int) + 32)
      else to_lower c)"

definition classify_string_error :: "string \<Rightarrow> string \<Rightarrow> error_type" where
  "classify_string_error value1 value2 =
     (if py_strip value1 = py_strip value2 then whitespace_error
      else if map py_lower value1 = map py_lower value2 then case_error
      else if list_ex (\<lambda>(c1, c2). c1 \<noteq> c2 \<and> (127 < (of_char c1 :: int) \<or> 127 < (of_char c2 :: int)))
                (zip value1 value2)
           then character_encoding
      else if take (length value2) value1 = value2 \<or> take (length value1) value2 = value1
           then truncation
      else string_mismatch)"

text \<open>\<open>type(v)\<close>, by its name, and the number a value is when it is an \<open>int\<close> or a \<open>float\<close>.\<close>

fun py_type :: "pyval \<Rightarrow> string" where
  "py_type PyNone = ''NoneType''"
| "py_type (PyStr s) = ''str''"
| "py_type (PyInt i) = ''int''"
| "py_type (PyFloat x) = ''float''"
| "py_type (PyDict d) = ''dict''"

fun as_number :: "pyval \<Rightarrow> pynum option" where
  "as_number (PyInt i) = Some (NInt i)"
| "as_number (PyFloat x) = Some (NFloat x)"
| "as_number v = None"

fun as_str :: "pyval \<Rightarrow> string option" where
  "as_str (PyStr s) = Some s"
| "as_str v = None"

definition classify_error :: "pyval \<Rightarrow> pyval \<Rightarrow> pynum \<Rightarrow> py_error + error_type" where
  "classify_error value1 value2 tolerance =
     (if value1 = PyNone \<or> value2 = PyNone then Inr missing_value
      else if py_type value1 \<noteq> py_type value2 then Inr type_mismatch
      else (case (as_number value1, as_number value2) of
              (Some x, Some y) \<Rightarrow> classify_numeric_error x y tolerance
            | _ \<Rightarrow>
                (case (as_str value1, as_str value2) of
                   (Some s, Some t) \<Rightarrow> Inr (classify_string_error s t)
                 | _ \<Rightarrow> Inr unknown_error)))"

section \<open>Fields and records of the scenarios\<close>

text \<open>
  \<open>05 AMT PIC S9(3)V99.\<close> (DISPLAY), \<open>05 QTY PIC S9(5) COMP-3.\<close>,
  \<open>05 CNT PIC S9(3)V99 COMP.\<close>, \<open>05 BAL PIC S9(3) SIGN IS LEADING SEPARATE.\<close> and
  \<open>05 RATE COMP-1.\<close>, each at offset 0. Their \<open>size\<close> is the number of bytes the field
  occupies in the records below. (\<open>calculate_field_sizes\<close> computes 8, 4, 4 and 5 for
  the first four; a slice ends with the record, so on these records the handlers see the
  same bytes with either size.)
\<close>

definition amt_field :: field_attrs where
  "amt_field = (new_field 5 ''AMT'')\<lparr>picture := Some ''S9(3)V99'', size_f := 5\<rparr>"

definition qty_field :: field_attrs where
  "qty_field = (new_field 5 ''QTY'')\<lparr>picture := Some ''S9(5)'', usage := Some ''COMP-3'', size_f := 3\<rparr>"

definition cnt_field :: field_attrs where
  "cnt_field = (new_field 5 ''CNT'')\<lparr>picture := Some ''S9(3)V99'', usage := Some ''COMP'', size_f := 4\<rparr>"

definition sep_field :: field_attrs where
  "sep_field =
     (new_field 5 ''BAL'')\<lparr>picture := Some ''S9(3)'', sign_separate := True, sign_leading := True,
                            size_f := 4\<rparr>"

text \<open>The copybook \<open>01 R. 05 AMT PIC S9(3)V99.\<close> under the root of \<open>parse_copybook\<close>.\<close>

definition amt_structure :: Field where
  "amt_structure =
     Field ((new_field 0 ''ROOT'')\<lparr>is_group := True\<rparr>)
       [Field ((new_field 1 ''R'')\<lparr>is_group := True\<rparr>) [Field amt_field []]]"

definition rate_field :: field_attrs where
  "rate_field = (new_field 5 ''RATE'')\<lparr>usage := Some ''COMP-1'', size_f := 4\<rparr>"

text \<open>The bytes of a field in a record, \<open>record[start:end]\<close> in every \<open>extract_from_record\<close>.\<close>

definition field_data :: "bytes \<Rightarrow> field_attrs \<Rightarrow> bytes" where
  "field_data record f = py_slice record (offset f) (offset f + size_f f)"

text \<open>
  The two conversions the handlers try, with the text they fall back to:
  \<open>int(t)\<close>, or \<open>t\<close> on \<open>ValueError\<close>; \<open>float(s)\<close>, or \<open>t\<close> on \<open>ValueError\<close>.
\<close>

definition int_or_text :: "string \<Rightarrow> pyval" where
  "int_or_text t = (case py_int t of Some i \<Rightarrow> PyInt i | None \<Rightarrow> PyStr t)"

definition float_or_text :: "string \<Rightarrow> string \<Rightarrow> pyval" where
  "float_or_text s t = (case py_float s of Some x \<Rightarrow> PyFloat x | None \<Rightarrow> PyStr t)"

text \<open>
  A picture with a decimal point, implied (\<open>V\<close>) or written, and the number of \<open>9\<close>
  after the \<open>V\<close> of a picture.
\<close>

definition decimal_picture :: "field_attrs \<Rightarrow> bool" where
  "decimal_picture f =
     (case picture f of
        None \<Rightarrow> False
      | Some pic \<Rightarrow> CHR ''V'' \<in> set pic \<or> CHR ''.'' \<in> set pic)"

definition implied_places :: "field_attrs \<Rightarrow> nat" where
  "implied_places f =
     (case picture f of
        None \<Rightarrow> 0
      | Some pic \<Rightarrow> if CHR ''V'' \<in> set pic then nines_after_V pic else 0)"

text \<open>
  Zoned decimal bytes: a digit with the zone nibble \<open>F\<close>, and a digit with the sign zone
  \<open>C\<close> or \<open>D\<close>.
\<close>

definition zoned_digit :: "byte \<Rightarrow> bool" where
  "zoned_digit b = (high_nibble b = 0xF \<and> low_nibble b \<le> 9)"

definition zoned_sign :: "byte \<Rightarrow> bool" where
  "zoned_sign b = ((high_nibble b = 0xC \<or> high_nibble b = 0xD) \<and> low_nibble b \<le> 9)"

text \<open>
  The character of such a byte in code page 037: the digit for the zone \<open>F\<close>, one of
  \<open>{ABCDEFGHI\<close> for the zone \<open>C\<close> and one of \<open>}JKLMNOPQR\<close> for the zone \<open>D\<close>.
\<close>

definition zoned_char :: "byte \<Rightarrow> char" where
  "zoned_char b =
     (if high_nibble b = 0xC then ''{ABCDEFGHI'' ! nat (low_nibble b)
      else if high_nibble b = 0xD then ''}JKLMNOPQR'' ! nat (low_nibble b)
      else ''0123456789'' ! nat (low_nibble b))"

section \<open>Sizes of elementary fields\<close>

text \<open>
  C4. The picture \<open>S9(9)\<close> has nine digit positions and, as COMP, should resolve to 4
  bytes. The code keeps the \<open>9\<close> in front of \<open>(9)\<close> and adds nine more positions, and it
  turns the \<open>S\<close> into a position as well: \<open>base_size\<close> is 11 and the size is 8. A \<open>V\<close> is
  counted in the same way: \<open>9V9\<close> has \<open>base_size\<close> 3.
\<close>

theorem C4_S9_9_COMP_size:
  "base_size ''S9(9)'' = 11 \<and> calculate_picture_size ''S9(9)'' (Some ''COMP'') = 8
   \<and> base_size ''9V9'' = 3"
  by code_simp

text \<open>
  C5. \<open>S9(5)\<close> as COMP-3 should resolve to 3 bytes. The code computes
  \<open>(base_size + 1) // 2\<close>, which is the size of \<open>base_size\<close> nibbles without a sign nibble,
  on a \<open>base_size\<close> of 7: the size is 4. On the picture \<open>9999\<close>, whose \<open>base_size\<close> is the
  digit count 4, the code's size is 2 where four digits and a sign need 3 bytes.
\<close>

theorem C5_COMP3_size:
  "calculate_picture_size ''S9(5)'' (Some ''COMP-3'') = 4
   \<and> base_size ''9999'' = 4 \<and> calculate_picture_size ''9999'' (Some ''COMP-3'') = 2"
  by code_simp

section \<open>Sizes of groups\<close>

text \<open>
  C8. A group's size should be the sum of the sizes of its children without REDEFINES.
  \<open>calculate_field_sizes\<close> sums every child: the group \<open>G\<close> with \<open>A PIC XXXX\<close> and
  \<open>B REDEFINES A PIC 9999\<close> gets size 8, where its children without REDEFINES sum to 4.
  \<open>calculate_field_offsets\<close> does leave the cursor where it is at a REDEFINES child: it
  puts \<open>B\<close> at the offset of \<open>A\<close> and ends the group at offset 4.
\<close>

theorem C8_redefines_group_size:
  "size_f (attrs (calculate_field_sizes redefines_group)) = 8
   \<and> non_redefines_sum (calculate_field_sizes redefines_group) = 4
   \<and> snd (calculate_field_offsets (calculate_field_sizes redefines_group) 0) = 4
   \<and> map (\<lambda>c. offset (attrs c))
        (children (fst (calculate_field_offsets (calculate_field_sizes redefines_group) 0)))
      = [0, 0]"
  by code_simp

section \<open>OCCURS\<close>

text \<open>
  C3. For \<open>05 ITEM OCCURS 3 TIMES PIC 9(2).\<close> the decoded record should hold the
  sequence of the three elements 12, 34, 56 under \<open>ITEM\<close>. The walker calls the handler
  once, on the slice \<open>record[offset : offset + size]\<close> of the whole field, and stores the
  one value it returns: with the DISPLAY handler, the text of all six bytes. (The
  resolved size is 9, not 6: the picture \<open>9(2)\<close> counts as three positions.)
\<close>

theorem C3_occurs_single_value:
  "convert display_extract (resolve occurs_structure) [0xF1, 0xF2, 0xF3, 0xF4, 0xF5, 0xF6]
     = Inr [(''ITEM'', PyStr ''123456'')]
   \<and> map (\<lambda>c. size_f (attrs c)) (children (resolve occurs_structure)) = [9]"
  by code_simp

section \<open>BINARY with an implied decimal point\<close>

text \<open>
  C6. For \<open>PIC S9(3)V99 COMP\<close> the bytes \<open>00 00 30 39\<close> hold the integer 12345 and
  should decode to 123.45. \<open>BinaryHandler.to_dict_value\<close> sees the \<open>V\<close> and returns
  \<open>float\<close> of the integer's text: 12345.0, not divided by \<open>10^2\<close>.
\<close>

theorem C6_binary_not_scaled:
  "BinaryHandler_ebcdic_to_ascii [0x00, 0x00, 0x30, 0x39] = ''12345''
   \<and> BinaryHandler_extract_from_record [0x00, 0x00, 0x30, 0x39] cnt_field = PyFloat (Finite 12345)"
  by code_simp

section \<open>The classifier's dispatch\<close>

text \<open>
  C9. A \<open>float\<close> against an \<open>int\<close> never reaches the numeric classifier:
  \<open>classify_error\<close> compares the types first and answers \<open>type_mismatch\<close>. So it does for
  123.45 against 12345, which the numeric classifier itself, given the two numbers (the
  double nearest to 123.45, the \<open>int\<close> 12345 or the \<open>float\<close> 12345.0, and the tolerance
  0.01), would call a scale error of factor \<open>10^2\<close>.
\<close>

theorem C9_float_against_int:
  "classify_error (PyFloat x) (PyInt i) tolerance = Inr type_mismatch
   \<and> classify_error (PyInt i) (PyFloat x) tolerance = Inr type_mismatch
   \<and> classify_numeric_error (NFloat (round_double (12345 / 100))) (NInt 12345)
         (NFloat (round_double (1 / 100))) = Inr (scale_error 2)
   \<and> classify_numeric_error (NFloat (round_double (12345 / 100))) (NFloat (Finite 12345))
         (NFloat (round_double (1 / 100))) = Inr (scale_error 2)"
proof -
  have a: "classify_numeric_error (NFloat (round_double (12345 / 100))) (NInt 12345)
         (NFloat (round_double (1 / 100))) = Inr (scale_error 2)"
    by code_simp
  have b: "classify_numeric_error (NFloat (round_double (12345 / 100))) (NFloat (Finite 12345))
         (NFloat (round_double (1 / 100))) = Inr (scale_error 2)"
    by code_simp
  from a b show ?thesis
    by (simp add: classify_error_def)
qed

section \<open>The record reader\<close>

lemma read_record_short:
  "0 < k \<Longrightarrow> length rest < k \<Longrightarrow> read_record (Some (int k)) rest = Inr (None, [])"
  by (auto simp: read_record_def file_read_def record_length_def)

lemma read_record_whole:
  "0 < k \<Longrightarrow> k \<le> length rest \<Longrightarrow>
     read_record (Some (int k)) rest = Inr (Some (take k rest), drop k rest)"
  by (auto simp: read_record_def file_read_def record_length_def)

lemma iter_records_chunks:
  "0 < k \<Longrightarrow>
     iter_records (Some (int k)) rest
       = (map (\<lambda>i. take k (drop (i * k) rest)) [0..<length rest div k], None)"
proof (induction rest rule: length_induct)
  case (1 rest)
  show ?case
  proof (cases "length rest < k")
    case True
    with 1(2) have "iter_records (Some (int k)) rest = ([], None)"
      by (subst iter_records.simps) (simp add: read_record_short)
    with True show ?thesis by simp
  next
    case False
    then have ge: "k \<le> length rest" by simp
    have shorter: "length (drop k rest) < length rest"
      using 1(2) ge by simp
    have step: "iter_records (Some (int k)) rest
                  = (take k rest # fst (iter_records (Some (int k)) (drop k rest)),
                     snd (iter_records (Some (int k)) (drop k rest)))"
      using 1(2) ge by (subst iter_records.simps) (simp add: read_record_whole)
    have ih: "iter_records (Some (int k)) (drop k rest)
                = (map (\<lambda>i. take k (drop (i * k) (drop k rest))) [0..<length (drop k rest) div k],
                   None)"
      using 1(1) shorter 1(2) by blast
    have count: "length rest div k = Suc (length (drop k rest) div k)"
      using ge 1(2) by (simp add: le_div_geq)
    have "map (\<lambda>i. take k (drop (i * k) rest)) [0..<Suc (length (drop k rest) div k)]
            = take k rest # map (\<lambda>i. take k (drop (i * k) (drop k rest))) [0..<length (drop k rest) div k]"
      by (simp add: map_upt_Suc add.commute del: upt_Suc)
    with step ih count show ?thesis by simp
  qed
qed

text \<open>
  A file of three bytes read with record length 2 yields the one whole record and the
  iteration ends: \<open>read_record\<close> answers the partial record by \<open>None\<close>, which
  \<open>__iter__\<close> takes as the end of the file. Nothing is raised. With no record length
  given, as in \<open>cli.py\<close>, the length is 80 whatever the copybook says: a file of ten
  bytes yields no record.
\<close>

theorem C2_partial_record_dropped:
  "iter_records (Some 2) [1, 2, 3] = ([[1, 2]], None)
   \<and> iter_records None (replicate 10 0) = ([], None)"
  by code_simp

text \<open>
  C2, as the code has it. For every file and every positive record length \<open>n\<close> the
  reader was built with, the iteration yields the successive whole slices of \<open>n\<close> bytes,
  one per record, \<open>length data div n\<close> of them, each of length \<open>n\<close>, and then ends
  without an exception; a trailing partial record is left out without an error.
\<close>

theorem C2_reader_whole_records:
  assumes "0 < n"
  shows "iter_records (Some n) data
           = (map (\<lambda>i. take (nat n) (drop (i * nat n) data)) [0..<length data div nat n], None)
         \<and> list_all (\<lambda>r. int (length r) = n) (fst (iter_records (Some n) data))"
proof -
  from assms have k: "0 < nat n" "int (nat n) = n" by simp_all
  have eq: "iter_records (Some n) data
           = (map (\<lambda>i. take (nat n) (drop (i * nat n) data)) [0..<length data div nat n], None)"
    using iter_records_chunks [OF k(1), of data] k(2) by simp
  have "int (length (take (nat n) (drop (i * nat n) data))) = n"
    if "i < length data div nat n" for i
  proof -
    from that have "Suc i \<le> length data div nat n" by simp
    then have "Suc i * nat n \<le> length data"
      using k(1) by (simp add: less_eq_div_iff_mult_less_eq)
    then have "nat n \<le> length data - i * nat n" by simp
    then have "length (take (nat n) (drop (i * nat n) data)) = nat n" by simp
    with k(2) show ?thesis by simp
  qed
  then have "list_all (\<lambda>r. int (length r) = n)
          (map (\<lambda>i. take (nat n) (drop (i * nat n) data)) [0..<length data div nat n])"
    by (simp add: list_all_iff)
  with eq show ?thesis by simp
qed

theorem C2_reader_whole_records_witness:
  "(0::int) < 2 \<and> iter_records (Some 2) [1, 2, 3, 4, 5] = ([[1, 2], [3, 4]], None)"
  using C2_reader_whole_records [of 2 "[1, 2, 3, 4, 5]"] by simp

section \<open>COMP-3 sign and digit nibbles\<close>

lemma digit_chars: "n < 10 \<Longrightarrow> is_digit (''0123456789'' ! n)"
  unfolding is_digit_def by (rule nth_mem) simp

lemma digits_of_digits: "0 \<le> n \<Longrightarrow> list_all is_digit (digits_of n) \<and> digits_of n \<noteq> []"
proof (induction n rule: digits_of.induct)
  case (1 n)
  show ?case
  proof (cases "n < 10")
    case True
    with 1(2) have "nat n < 10" by simp
    then have "is_digit (''0123456789'' ! nat n)" by (rule digit_chars)
    with True show ?thesis by (subst digits_of.simps, subst digits_of.simps) simp
  next
    case False
    then have "0 \<le> n div 10" by simp
    with 1(1) False have ih: "list_all is_digit (digits_of (n div 10)) \<and> digits_of (n div 10) \<noteq> []"
      by simp
    have "nat (n mod 10) < 10" by simp
    then have "is_digit (''0123456789'' ! nat (n mod 10))" by (rule digit_chars)
    with False ih show ?thesis by (subst digits_of.simps, subst digits_of.simps) simp
  qed
qed

lemma py_str_int_digits: "0 \<le> n \<Longrightarrow> list_all is_digit (py_str_int n) \<and> py_str_int n \<noteq> []"
  by (simp add: py_str_int_def digits_of_digits)

lemma high_nibble_nonneg: "0 \<le> high_nibble b" by (simp add: high_nibble_def)
lemma low_nibble_nonneg: "0 \<le> low_nibble b" by (simp add: low_nibble_def)

lemma nibble_digits_digits: "list_all is_digit (nibble_digits b) \<and> nibble_digits b \<noteq> []"
  using py_str_int_digits [OF high_nibble_nonneg, of b] py_str_int_digits [OF low_nibble_nonneg, of b]
  by (simp add: nibble_digits_def)

lemma packed_digits_digits:
  "list_all is_digit (concat (map nibble_digits body) @ py_str_int (high_nibble b))
   \<and> concat (map nibble_digits body) @ py_str_int (high_nibble b) \<noteq> []"
  using py_str_int_digits [OF high_nibble_nonneg, of b] nibble_digits_digits
  by (auto simp: list_all_iff)

lemma digits_no_minus: "list_all is_digit ds \<Longrightarrow> ds \<noteq> [] \<Longrightarrow> take 1 ds \<noteq> ''-''"
  by (cases ds) (auto simp: is_digit_def)

text \<open>
  The bytes \<open>01 2A 4C\<close> are decoded without an error: the nibble \<open>A\<close> is written as
  \<open>str(10)\<close>, the text is \<open>012104\<close> and the value of the field 12104. A sign nibble
  that is no sign, such as 7, is taken as positive.
\<close>

theorem C7_non_digit_nibble_accepted:
  "PackedDecimalHandler_ebcdic_to_ascii [0x01, 0x2A, 0x4C] = Inr ''012104''
   \<and> PackedDecimalHandler_extract_from_record [0x01, 0x2A, 0x4C] qty_field = Inr (PyInt 12104)
   \<and> PackedDecimalHandler_ebcdic_to_ascii [0x01, 0x23, 0x47] = Inr ''01234''"
  by code_simp

text \<open>
  C7, as the code has it. On every non-empty slice the COMP-3 decoder returns a text and
  raises nothing, whatever the nibbles are: the text is a non-empty run of decimal digits,
  with a minus sign in front exactly when the sign nibble, the low nibble of the last
  byte, is \<open>B\<close> or \<open>D\<close>. Every other sign nibble, \<open>A\<close>, \<open>C\<close>, \<open>E\<close> and \<open>F\<close>
  among them, is positive.
\<close>

theorem C7_packed_sign_no_error:
  assumes "data \<noteq> []"
  shows "\<exists>digits. list_all is_digit digits \<and> digits \<noteq> []
           \<and> PackedDecimalHandler_ebcdic_to_ascii data
               = Inr (if low_nibble (last data) = 0x0B \<or> low_nibble (last data) = 0x0D
                      then CHR ''-'' # digits else digits)"
proof -
  from assms obtain body b where data: "data = body @ [b]"
    by (metis rev_exhaust)
  let ?digits = "concat (map nibble_digits body) @ py_str_int (high_nibble b)"
  have "PackedDecimalHandler_ebcdic_to_ascii data
          = Inr (if low_nibble b = 0x0B \<or> low_nibble b = 0x0D then CHR ''-'' # ?digits else ?digits)"
    by (simp add: PackedDecimalHandler_ebcdic_to_ascii_def data Let_def)
  with packed_digits_digits [of body b] data show ?thesis by auto
qed

theorem C7_packed_sign_no_error_witness:
  "[0x01, 0x23, 0x4D] \<noteq> ([] :: bytes)
   \<and> PackedDecimalHandler_ebcdic_to_ascii [0x01, 0x23, 0x4D] = Inr ''-01234''
   \<and> PackedDecimalHandler_ebcdic_to_ascii [0x01, 0x23, 0x4C] = Inr ''01234''"
proof -
  have "\<exists>digits. list_all is_digit digits \<and> digits \<noteq> []
           \<and> PackedDecimalHandler_ebcdic_to_ascii [0x01, 0x23, 0x4D]
               = Inr (if low_nibble (last [0x01, 0x23, 0x4D]) = 0x0B \<or> low_nibble (last [0x01, 0x23, 0x4D]) = 0x0D
                      then CHR ''-'' # digits else digits)"
    using C7_packed_sign_no_error [of "[0x01, 0x23, 0x4D]"] by simp
  moreover have "PackedDecimalHandler_ebcdic_to_ascii [0x01, 0x23, 0x4D] = Inr ''-01234''"
    by code_simp
  moreover have "PackedDecimalHandler_ebcdic_to_ascii [0x01, 0x23, 0x4C] = Inr ''01234''"
    by code_simp
  ultimately show ?thesis by simp
qed

section \<open>What the handlers return\<close>

lemma packed_ascii_empty: "PackedDecimalHandler_ebcdic_to_ascii [] = Inl IndexError"
  by (simp add: PackedDecimalHandler_ebcdic_to_ascii_def)

lemma packed_ascii_total:
  "data \<noteq> [] \<Longrightarrow> \<exists>t. PackedDecimalHandler_ebcdic_to_ascii data = Inr t"
  by (cases data rule: rev_cases) (simp_all add: PackedDecimalHandler_ebcdic_to_ascii_def Let_def)

lemma packed_to_dict_value_none:
  "picture f = None \<Longrightarrow> PackedDecimalHandler_to_dict_value t f = Inl TypeError"
  by (simp add: PackedDecimalHandler_to_dict_value_def)

lemma packed_to_dict_value_some:
  "picture f \<noteq> None \<Longrightarrow>
     PackedDecimalHandler_to_dict_value t f
       = Inr (if 0 < implied_places f
              then float_or_text (insert_point_signed (implied_places f) t) t
              else int_or_text t)"
  by (auto simp: PackedDecimalHandler_to_dict_value_def implied_places_def float_or_text_def
        int_or_text_def)

lemma signed_ascii_empty:
  "sign_separate f \<Longrightarrow> SignedHandler_ebcdic_to_ascii [] f = Inl IndexError"
  by (simp add: SignedHandler_ebcdic_to_ascii_def decode_cp037_def)

lemma signed_ascii_total:
  assumes "sign_separate f \<longrightarrow> data \<noteq> []"
  shows "\<exists>t. SignedHandler_ebcdic_to_ascii data f = Inr t"
proof (cases "sign_separate f")
  case False
  then show ?thesis by (simp add: SignedHandler_ebcdic_to_ascii_def)
next
  case True
  with assms have "data \<noteq> []" by simp
  then have ne: "decode_cp037 data \<noteq> []" by (simp add: decode_cp037_def)
  then obtain c cs where c: "decode_cp037 data = c # cs" by (cases "decode_cp037 data") auto
  from ne obtain ds d where d: "decode_cp037 data = ds @ [d]" by (metis rev_exhaust)
  show ?thesis
  proof (cases "sign_leading f")
    case True
    with \<open>sign_separate f\<close> c show ?thesis
      by (simp add: SignedHandler_ebcdic_to_ascii_def)
  next
    case False
    with \<open>sign_separate f\<close> d show ?thesis
      by (simp add: SignedHandler_ebcdic_to_ascii_def)
  qed
qed

lemma signed_to_dict_value_none:
  "picture f = None \<Longrightarrow> SignedHandler_to_dict_value t f = Inl TypeError"
  by (simp add: SignedHandler_to_dict_value_def)

lemma signed_to_dict_value_some:
  "picture f \<noteq> None \<Longrightarrow>
     SignedHandler_to_dict_value t f
       = Inr (if 0 < implied_places f
              then float_or_text (insert_point_signed (implied_places f) t) t
              else int_or_text t)"
  by (auto simp: SignedHandler_to_dict_value_def implied_places_def float_or_text_def
        int_or_text_def)

lemma float_ascii_total:
  "(\<exists>t. FloatingPointHandler_ebcdic_to_ascii data f = Inr t)
     = (if usage f = Some ''COMP-1'' then length data = 4
        else if usage f = Some ''COMP-2'' then length data = 4 \<or> length data = 8
        else True)"
  by (simp add: FloatingPointHandler_ebcdic_to_ascii_def struct_unpack_f_def struct_unpack_d_def)

lemma binary_to_dict_value_eq:
  "BinaryHandler_to_dict_value t f
     = (if decimal_picture f then float_or_text t t else int_or_text t)"
  by (auto simp: BinaryHandler_to_dict_value_def decimal_picture_def float_or_text_def
        int_or_text_def split: option.splits)

lemma native_to_dict_value_eq:
  "NativeBinaryHandler_to_dict_value t f
     = (if decimal_picture f then float_or_text t t else int_or_text t)"
  by (auto simp: NativeBinaryHandler_to_dict_value_def decimal_picture_def float_or_text_def
        int_or_text_def split: option.splits)

lemma unsigned_to_dict_value_eq:
  "UnsignedPackedHandler_to_dict_value t f
     = (if 0 < implied_places f
        then float_or_text (insert_point (implied_places f) t) t
        else int_or_text t)"
  by (auto simp: UnsignedPackedHandler_to_dict_value_def implied_places_def float_or_text_def
        int_or_text_def split: option.splits)

lemma display_to_dict_value_cases:
  "DisplayHandler_to_dict_value t f = PyStr t
   \<or> DisplayHandler_to_dict_value t f = int_or_text t
   \<or> DisplayHandler_to_dict_value t f = float_or_text t t
   \<or> (\<exists>pic. picture f = Some pic \<and> CHR ''V'' \<in> set pic
         \<and> DisplayHandler_to_dict_value t f
             = float_or_text (insert_point (display_decimal_places pic) t)
                 (insert_point (display_decimal_places pic) t))"
  by (cases "picture f")
     (auto simp: DisplayHandler_to_dict_value_def Let_def float_or_text_def int_or_text_def)

text \<open>
  Three of the seven handlers raise. On an empty slice (here a record that ends before
  the field starts; so it is for every field beyond the 80 bytes that the reader of
  \<open>cli.py\<close> yields) the COMP-3 handler reads \<open>data[-1]\<close> and the sign-separate handler
  reads the sign character of an empty text: \<open>IndexError\<close>. On a slice of three bytes the
  floating point handler of a COMP-1 field calls \<open>struct.unpack('>f', data)\<close>:
  \<open>struct.error\<close>. Without a picture the COMP-3 handler evaluates \<open>'V' in None\<close>:
  \<open>TypeError\<close>. No handler catches any of them.
\<close>

theorem C10_empty_slice_raises:
  "PackedDecimalHandler_extract_from_record [0x01, 0x23, 0x4C] (qty_field\<lparr>offset := 3\<rparr>)
     = Inl IndexError
   \<and> SignedHandler_extract_from_record [] sep_field = Inl IndexError
   \<and> FloatingPointHandler_extract_from_record [0x42, 0xF6, 0xE6] rate_field = Inl StructError
   \<and> PackedDecimalHandler_extract_from_record [0x01, 0x23, 0x4C] (qty_field\<lparr>picture := None\<rparr>)
       = Inl TypeError"
  by code_simp

text \<open>
  C10, as the code has it, for the seven handlers of \<open>data_types\<close>, the field's bytes
  decoded with code page 037. The COMP-3 extraction returns a value exactly when the
  slice is not empty and the field has a picture; the sign extraction exactly when the
  field has a picture and, with SIGN SEPARATE, the slice is not empty; the floating point
  extraction exactly when the slice has the length that the format it unpacks needs. The
  unsigned packed, the binary and the native binary extraction and
  \<open>DisplayHandler.to_dict_value\<close> return a value on every slice and field. The value
  returned is the number that \<open>int\<close> or \<open>float\<close> reads, from the decoded text or from that
  text with the decimal point put in, and when the text is no number it is the decoded
  text, unconverted; only \<open>DisplayHandler.to_dict_value\<close> may return the text with the
  point put in. \<open>BinaryHandler.ebcdic_to_ascii\<close> and \<open>NativeBinaryHandler.ebcdic_to_ascii\<close>
  give the hexadecimal text, the bytes separated by spaces, for every length other than 2,
  4 and 8.
\<close>

theorem C10_extraction_returns:
  "((\<exists>v. PackedDecimalHandler_extract_from_record record f = Inr v)
      = (field_data record f \<noteq> [] \<and> picture f \<noteq> None))
   \<and> ((\<exists>v. SignedHandler_extract_from_record record f = Inr v)
      = ((sign_separate f \<longrightarrow> field_data record f \<noteq> []) \<and> picture f \<noteq> None))
   \<and> ((\<exists>v. FloatingPointHandler_extract_from_record record f = Inr v)
      = (if usage f = Some ''COMP-1'' then length (field_data record f) = 4
         else if usage f = Some ''COMP-2''
           then length (field_data record f) = 4 \<or> length (field_data record f) = 8
         else True))
   \<and> (\<forall>t. PackedDecimalHandler_ebcdic_to_ascii (field_data record f) = Inr t \<and> picture f \<noteq> None
        \<longrightarrow> PackedDecimalHandler_extract_from_record record f
              = Inr (if 0 < implied_places f
                     then float_or_text (insert_point_signed (implied_places f) t) t
                     else int_or_text t))
   \<and> (\<forall>t. SignedHandler_ebcdic_to_ascii (field_data record f) f = Inr t \<and> picture f \<noteq> None
        \<longrightarrow> SignedHandler_extract_from_record record f
              = Inr (if 0 < implied_places f
                     then float_or_text (insert_point_signed (implied_places f) t) t
                     else int_or_text t))
   \<and> (\<forall>t. FloatingPointHandler_ebcdic_to_ascii (field_data record f) f = Inr t
        \<longrightarrow> FloatingPointHandler_extract_from_record record f = Inr (float_or_text t t))
   \<and> UnsignedPackedHandler_extract_from_record record f
       = (if 0 < implied_places f
          then float_or_text
                 (insert_point (implied_places f)
                    (UnsignedPackedHandler_ebcdic_to_ascii (field_data record f)))
                 (UnsignedPackedHandler_ebcdic_to_ascii (field_data record f))
          else int_or_text (UnsignedPackedHandler_ebcdic_to_ascii (field_data record f)))
   \<and> BinaryHandler_extract_from_record record f
       = (if decimal_picture f
          then float_or_text (BinaryHandler_ebcdic_to_ascii (field_data record f))
                 (BinaryHandler_ebcdic_to_ascii (field_data record f))
          else int_or_text (BinaryHandler_ebcdic_to_ascii (field_data record f)))
   \<and> NativeBinaryHandler_extract_from_record little record f
       = (if decimal_picture f
          then float_or_text (NativeBinaryHandler_ebcdic_to_ascii little (field_data record f))
                 (NativeBinaryHandler_ebcdic_to_ascii little (field_data record f))
          else int_or_text (NativeBinaryHandler_ebcdic_to_ascii little (field_data record f)))
   \<and> DisplayHandler_extract_from_record record f
       = DisplayHandler_ebcdic_to_ascii (field_data record f) f
   \<and> (DisplayHandler_to_dict_value t f = PyStr t
      \<or> DisplayHandler_to_dict_value t f = int_or_text t
      \<or> DisplayHandler_to_dict_value t f = float_or_text t t
      \<or> (\<exists>pic. picture f = Some pic \<and> CHR ''V'' \<in> set pic
            \<and> DisplayHandler_to_dict_value t f
                = float_or_text (insert_point (display_decimal_places pic) t)
                    (insert_point (display_decimal_places pic) t)))
   \<and> BinaryHandler_ebcdic_to_ascii data
       = (if length data = 2 \<or> length data = 4 \<or> length data = 8
          then py_str_int (be_sint data) else join_space (map hex2 data))
   \<and> NativeBinaryHandler_ebcdic_to_ascii little data
       = (if length data = 2 \<or> length data = 4 \<or> length data = 8
          then py_str_int (be_sint (if little then rev data else data))
          else join_space (map hex2 data))"
proof -
  let ?d = "field_data record f"
  have d: "py_slice record (offset f) (offset f + size_f f) = ?d"
    by (simp add: field_data_def)
  have packed_total: "(\<exists>v. PackedDecimalHandler_extract_from_record record f = Inr v)
      = (?d \<noteq> [] \<and> picture f \<noteq> None)"
  proof (cases "?d = []")
    case True
    then show ?thesis
      by (simp add: PackedDecimalHandler_extract_from_record_def d packed_ascii_empty)
  next
    case False
    from packed_ascii_total [OF this] obtain t where
      t: "PackedDecimalHandler_ebcdic_to_ascii ?d = Inr t" ..
    show ?thesis
    proof (cases "picture f = None")
      case True
      with False t show ?thesis
        by (simp add: PackedDecimalHandler_extract_from_record_def d packed_to_dict_value_none)
    next
      case no: False
      with False t show ?thesis
        by (simp add: PackedDecimalHandler_extract_from_record_def d packed_to_dict_value_some)
    qed
  qed
  have signed_total: "(\<exists>v. SignedHandler_extract_from_record record f = Inr v)
      = ((sign_separate f \<longrightarrow> ?d \<noteq> []) \<and> picture f \<noteq> None)"
  proof (cases "sign_separate f \<longrightarrow> ?d \<noteq> []")
    case False
    then show ?thesis
      by (simp add: SignedHandler_extract_from_record_def d signed_ascii_empty)
  next
    case True
    from signed_ascii_total [OF this] obtain t where
      t: "SignedHandler_ebcdic_to_ascii ?d f = Inr t" ..
    show ?thesis
    proof (cases "picture f = None")
      case none: True
      with True t show ?thesis
        by (simp add: SignedHandler_extract_from_record_def d signed_to_dict_value_none)
    next
      case no: False
      with True t show ?thesis
        by (simp add: SignedHandler_extract_from_record_def d signed_to_dict_value_some)
    qed
  qed
  have float_total: "(\<exists>v. FloatingPointHandler_extract_from_record record f = Inr v)
      = (if usage f = Some ''COMP-1'' then length ?d = 4
         else if usage f = Some ''COMP-2'' then length ?d = 4 \<or> length ?d = 8
         else True)"
  proof -
    have "(\<exists>v. FloatingPointHandler_extract_from_record record f = Inr v)
            = (\<exists>t. FloatingPointHandler_ebcdic_to_ascii ?d f = Inr t)"
      by (cases "FloatingPointHandler_ebcdic_to_ascii ?d f")
         (simp_all add: FloatingPointHandler_extract_from_record_def d)
    then show ?thesis by (simp only: float_ascii_total)
  qed
  have packed_value: "\<forall>t. PackedDecimalHandler_ebcdic_to_ascii ?d = Inr t \<and> picture f \<noteq> None
        \<longrightarrow> PackedDecimalHandler_extract_from_record record f
              = Inr (if 0 < implied_places f
                     then float_or_text (insert_point_signed (implied_places f) t) t
                     else int_or_text t)"
    by (simp add: PackedDecimalHandler_extract_from_record_def d packed_to_dict_value_some)
  have signed_value: "\<forall>t. SignedHandler_ebcdic_to_ascii ?d f = Inr t \<and> picture f \<noteq> None
        \<longrightarrow> SignedHandler_extract_from_record record f
              = Inr (if 0 < implied_places f
                     then float_or_text (insert_point_signed (implied_places f) t) t
                     else int_or_text t)"
    by (simp add: SignedHandler_extract_from_record_def d signed_to_dict_value_some)
  have float_value: "\<forall>t. FloatingPointHandler_ebcdic_to_ascii ?d f = Inr t
        \<longrightarrow> FloatingPointHandler_extract_from_record record f = Inr (float_or_text t t)"
    by (simp add: FloatingPointHandler_extract_from_record_def d
          FloatingPointHandler_to_dict_value_def float_or_text_def)
  have unsigned_value: "UnsignedPackedHandler_extract_from_record record f
       = (if 0 < implied_places f
          then float_or_text
                 (insert_point (implied_places f) (UnsignedPackedHandler_ebcdic_to_ascii ?d))
                 (UnsignedPackedHandler_ebcdic_to_ascii ?d)
          else int_or_text (UnsignedPackedHandler_ebcdic_to_ascii ?d))"
    by (simp only: UnsignedPackedHandler_extract_from_record_def d unsigned_to_dict_value_eq)
  have binary_value: "BinaryHandler_extract_from_record record f
       = (if decimal_picture f
          then float_or_text (BinaryHandler_ebcdic_to_ascii ?d) (BinaryHandler_ebcdic_to_ascii ?d)
          else int_or_text (BinaryHandler_ebcdic_to_ascii ?d))"
    by (simp only: BinaryHandler_extract_from_record_def d binary_to_dict_value_eq)
  have native_value: "NativeBinaryHandler_extract_from_record little record f
       = (if decimal_picture f
          then float_or_text (NativeBinaryHandler_ebcdic_to_ascii little ?d)
                 (NativeBinaryHandler_ebcdic_to_ascii little ?d)
          else int_or_text (NativeBinaryHandler_ebcdic_to_ascii little ?d))"
    by (simp only: NativeBinaryHandler_extract_from_record_def d native_to_dict_value_eq)
  have display_value: "DisplayHandler_extract_from_record record f
       = DisplayHandler_ebcdic_to_ascii ?d f"
    by (simp only: DisplayHandler_extract_from_record_def d)
  have hex: "BinaryHandler_ebcdic_to_ascii data
       = (if length data = 2 \<or> length data = 4 \<or> length data = 8
          then py_str_int (be_sint data) else join_space (map hex2 data))"
    by (simp add: BinaryHandler_ebcdic_to_ascii_def)
  have native_hex: "NativeBinaryHandler_ebcdic_to_ascii little data
       = (if length data = 2 \<or> length data = 4 \<or> length data = 8
          then py_str_int (be_sint (if little then rev data else data))
          else join_space (map hex2 data))"
    by (simp add: NativeBinaryHandler_ebcdic_to_ascii_def)
  show ?thesis
    apply (intro conjI)
    apply (rule packed_total)
    apply (rule signed_total)
    apply (rule float_total)
    apply (rule packed_value)
    apply (rule signed_value)
    apply (rule float_value)
    apply (rule unsigned_value)
    apply (rule binary_value)
    apply (rule native_value)
    apply (rule display_value)
    apply (rule display_to_dict_value_cases)
    apply (rule hex)
    apply (rule native_hex)
    done
qed

theorem C10_extraction_returns_witness:
  "PackedDecimalHandler_ebcdic_to_ascii (field_data [0x01, 0x23, 0x4C] qty_field) = Inr ''01234''
   \<and> picture qty_field \<noteq> None
   \<and> PackedDecimalHandler_extract_from_record [0x01, 0x23, 0x4C] qty_field = Inr (PyInt 1234)
   \<and> FloatingPointHandler_ebcdic_to_ascii (field_data [0x42, 0xF6, 0xE6, 0x66] rate_field) rate_field
       = Inr ''123.45''
   \<and> FloatingPointHandler_extract_from_record [0x42, 0xF6, 0xE6, 0x66] rate_field
       = Inr (PyFloat (Finite (8687021468732621 / 70368744177664)))
   \<and> sign_separate sep_field
   \<and> field_data [0x60, 0xF1, 0xF2, 0xF3] sep_field \<noteq> []
   \<and> picture sep_field \<noteq> None
   \<and> (\<exists>v. SignedHandler_extract_from_record [0x60, 0xF1, 0xF2, 0xF3] sep_field = Inr v)
   \<and> SignedHandler_ebcdic_to_ascii (field_data [0x60, 0xF1, 0xF2, 0xF3] sep_field) sep_field
       = Inr ''-123''
   \<and> SignedHandler_extract_from_record [0x60, 0xF1, 0xF2, 0xF3] sep_field = Inr (PyInt (- 123))
   \<and> BinaryHandler_extract_from_record [0x00, 0x30, 0x39] (cnt_field\<lparr>size_f := 3\<rparr>)
       = PyStr ''00 30 39''"
proof -
  let ?p = "[0x01, 0x23, 0x4C] :: bytes"
  let ?r = "[0x42, 0xF6, 0xE6, 0x66] :: bytes"
  let ?s = "[0x60, 0xF1, 0xF2, 0xF3] :: bytes"
  let ?b = "[0x00, 0x30, 0x39] :: bytes"
  let ?c = "cnt_field\<lparr>size_f := 3\<rparr>"
  have p1: "PackedDecimalHandler_ebcdic_to_ascii (field_data ?p qty_field) = Inr ''01234''"
    by code_simp
  have p2: "picture qty_field \<noteq> None"
    by (simp add: qty_field_def new_field_def)
  have p3: "(if 0 < implied_places qty_field
             then float_or_text (insert_point_signed (implied_places qty_field) ''01234'') ''01234''
             else int_or_text ''01234'') = PyInt 1234"
    by code_simp
  have r1: "FloatingPointHandler_ebcdic_to_ascii (field_data ?r rate_field) rate_field
              = Inr ''123.45''"
    by code_simp
  have r2: "float_or_text ''123.45'' ''123.45''
              = PyFloat (Finite (8687021468732621 / 70368744177664))"
    by code_simp
  have s1: "sign_separate sep_field"
    by (simp add: sep_field_def new_field_def)
  have s2: "field_data ?s sep_field \<noteq> []"
    by code_simp
  have s3: "picture sep_field \<noteq> None"
    by (simp add: sep_field_def new_field_def)
  have s4: "SignedHandler_ebcdic_to_ascii (field_data ?s sep_field) sep_field = Inr ''-123''"
    by code_simp
  have s5: "(if 0 < implied_places sep_field
             then float_or_text (insert_point_signed (implied_places sep_field) ''-123'') ''-123''
             else int_or_text ''-123'') = PyInt (- 123)"
    by code_simp
  have b1: "(if decimal_picture ?c
             then float_or_text (BinaryHandler_ebcdic_to_ascii (field_data ?b ?c))
                    (BinaryHandler_ebcdic_to_ascii (field_data ?b ?c))
             else int_or_text (BinaryHandler_ebcdic_to_ascii (field_data ?b ?c)))
            = PyStr ''00 30 39''"
    by code_simp
  note packed = C10_extraction_returns
    [of ?p qty_field False "[]" "[]"]
  note float = C10_extraction_returns
    [of ?r rate_field False "[]" "[]"]
  note signed = C10_extraction_returns
    [of ?s sep_field False "[]" "[]"]
  note binary = C10_extraction_returns
    [of ?b ?c False "[]" "[]"]
  have pv: "PackedDecimalHandler_extract_from_record ?p qty_field = Inr (PyInt 1234)"
    using packed [THEN conjunct2, THEN conjunct2, THEN conjunct2, THEN conjunct1,
                  THEN spec, of "''01234''"] p1 p2 p3
    by (simp only: simp_thms)
  have rv: "FloatingPointHandler_extract_from_record ?r rate_field
              = Inr (PyFloat (Finite (8687021468732621 / 70368744177664)))"
    using float [THEN conjunct2, THEN conjunct2, THEN conjunct2, THEN conjunct2,
                 THEN conjunct2, THEN conjunct1, THEN spec, of "''123.45''"] r1 r2
    by (simp only: simp_thms)
  have sv: "\<exists>v. SignedHandler_extract_from_record ?s sep_field = Inr v"
    using signed [THEN conjunct2, THEN conjunct1] s1 s2 s3
    by (simp only: simp_thms)
  have sw: "SignedHandler_extract_from_record ?s sep_field = Inr (PyInt (- 123))"
    using signed [THEN conjunct2, THEN conjunct2, THEN conjunct2, THEN conjunct2,
                  THEN conjunct1, THEN spec, of "''-123''"] s4 s3 s5
    by (simp only: simp_thms)
  have bv: "BinaryHandler_extract_from_record ?b ?c = PyStr ''00 30 39''"
    using binary [THEN conjunct2, THEN conjunct2, THEN conjunct2, THEN conjunct2,
                  THEN conjunct2, THEN conjunct2, THEN conjunct2, THEN conjunct1] b1
    by (simp only:)
  from p1 p2 pv r1 rv s1 s2 s3 sv s4 sw bv show ?thesis
    by (intro conjI)
qed

section \<open>Zoned DISPLAY numbers\<close>

lemma high_nibble_div: "high_nibble b = uint b div 16"
  by (simp add: high_nibble_def drop_bit_eq_div uint_div_distrib)

lemma low_nibble_mod: "low_nibble b = uint b mod 16"
proof -
  have m: "(15::int) = mask 4" by (simp add: mask_eq_exp_minus_1)
  have "uint (b AND 0x0F) = uint b AND 15" by (simp add: uint_and)
  also have "\<dots> = take_bit 4 (uint b)" unfolding m by (simp add: take_bit_eq_mask)
  also have "\<dots> = uint b mod 16" by (simp add: take_bit_eq_mod)
  finally show ?thesis by (simp add: low_nibble_def)
qed

lemma byte_of_nibbles: "unat b = nat (16 * high_nibble b + low_nibble b)"
proof -
  have "16 * high_nibble b + low_nibble b = uint b"
    unfolding high_nibble_div low_nibble_mod by (rule mult_div_mod_eq)
  then show ?thesis by simp
qed

lemma low_nibble_cases:
  assumes "low_nibble b \<le> 9"
  obtains "low_nibble b = 0" | "low_nibble b = 1" | "low_nibble b = 2" | "low_nibble b = 3"
    | "low_nibble b = 4" | "low_nibble b = 5" | "low_nibble b = 6" | "low_nibble b = 7"
    | "low_nibble b = 8" | "low_nibble b = 9"
proof -
  have "0 \<le> low_nibble b" by (simp add: low_nibble_def)
  with assms have "low_nibble b = 0 \<or> low_nibble b = 1 \<or> low_nibble b = 2 \<or> low_nibble b = 3
    \<or> low_nibble b = 4 \<or> low_nibble b = 5 \<or> low_nibble b = 6 \<or> low_nibble b = 7
    \<or> low_nibble b = 8 \<or> low_nibble b = 9" by arith
  then show thesis using that by blast
qed

lemma cp037_zoned_char:
  assumes "zoned_digit b \<or> zoned_sign b"
  shows "cp037_table ! unat b = zoned_char b"
proof -
  from assms have l: "low_nibble b \<le> 9"
    and h: "high_nibble b = 15 \<or> high_nibble b = 12 \<or> high_nibble b = 13"
    by (auto simp: zoned_digit_def zoned_sign_def)
  from h show ?thesis
  proof (elim disjE)
    assume f: "high_nibble b = 15"
    from l show ?thesis
      by (cases rule: low_nibble_cases)
         (simp_all add: byte_of_nibbles f cp037_table_def zoned_char_def)
  next
    assume c: "high_nibble b = 12"
    from l show ?thesis
      by (cases rule: low_nibble_cases)
         (simp_all add: byte_of_nibbles c cp037_table_def zoned_char_def)
  next
    assume d: "high_nibble b = 13"
    from l show ?thesis
      by (cases rule: low_nibble_cases)
         (simp_all add: byte_of_nibbles d cp037_table_def zoned_char_def)
  qed
qed

lemma zoned_char_digit:
  assumes "zoned_digit b"
  shows "is_digit (zoned_char b)"
proof -
  from assms have h: "high_nibble b = 15" and l: "low_nibble b \<le> 9"
    by (simp_all add: zoned_digit_def)
  from l have "nat (low_nibble b) < 10" by arith
  then have "is_digit (''0123456789'' ! nat (low_nibble b))" by (rule digit_chars)
  with h show ?thesis by (simp add: zoned_char_def)
qed

lemma zoned_char_sign:
  assumes "zoned_sign b"
  shows "zoned_char b \<in> set ''{ABCDEFGHI}JKLMNOPQR''"
proof -
  from assms have h: "high_nibble b = 12 \<or> high_nibble b = 13" and l: "low_nibble b \<le> 9"
    by (simp_all add: zoned_sign_def)
  from h show ?thesis
  proof
    assume c: "high_nibble b = 12"
    from l show ?thesis
      by (cases rule: low_nibble_cases) (simp_all add: c zoned_char_def)
  next
    assume d: "high_nibble b = 13"
    from l show ?thesis
      by (cases rule: low_nibble_cases) (simp_all add: d zoned_char_def)
  qed
qed

lemma decode_zoned:
  "list_all (\<lambda>b. zoned_digit b \<or> zoned_sign b) bs \<Longrightarrow> decode_cp037 bs = map zoned_char bs"
  by (induction bs) (simp_all add: decode_cp037_def cp037_zoned_char)

lemma digit_char_facts:
  assumes "is_digit c"
  shows "\<not> py_isspace c" "\<not> num_isspace c" "c \<noteq> CHR ''_''" "c \<noteq> CHR ''.''"
        "c \<noteq> CHR ''-''" "c \<noteq> CHR ''+''"
  using assms by (auto simp: is_digit_def py_isspace_def num_isspace_def)

lemma sign_char_facts:
  assumes "c \<in> set ''{ABCDEFGHI}JKLMNOPQR''"
  shows "\<not> is_digit c" "\<not> py_isspace c" "\<not> num_isspace c" "c \<noteq> CHR ''_''" "c \<noteq> CHR ''.''"
        "c \<noteq> CHR ''-''" "c \<noteq> CHR ''+''"
  using assms by (auto simp: is_digit_def py_isspace_def num_isspace_def)

lemma num_strip_id:
  assumes "s \<noteq> []" "\<not> num_isspace (hd s)" "\<not> num_isspace (last s)"
  shows "num_strip s = s"
proof -
  from assms(1,2) have a: "dropWhile num_isspace s = s"
    by (simp add: dropWhile_eq_self_iff)
  from assms(1,3) have "dropWhile num_isspace (rev s) = rev s"
    by (simp add: dropWhile_eq_self_iff hd_rev)
  with a show ?thesis by (simp add: num_strip_def)
qed

lemma py_strip_no_space:
  assumes "\<forall>c \<in> set s. \<not> py_isspace c"
  shows "py_strip s = s" "py_rstrip s = s"
proof -
  have d: "dropWhile py_isspace xs = xs" if "\<forall>c \<in> set xs. \<not> py_isspace c" for xs
    using that by (cases xs) simp_all
  from assms have a: "dropWhile py_isspace s = s" by (rule d)
  from assms have "\<forall>c \<in> set (rev s). \<not> py_isspace c" by simp
  then have "dropWhile py_isspace (rev s) = rev s" by (rule d)
  then show r: "py_rstrip s = s" by (simp add: py_rstrip_def)
  with a show "py_strip s = s" by (simp add: py_strip_def)
qed

lemma zoned_char_zero:
  assumes "zoned_digit b \<or> zoned_sign b" "zoned_char b = CHR ''0''"
  shows "b = 0xF0"
proof (cases "zoned_digit b")
  case True
  then have h: "high_nibble b = 15" and l: "low_nibble b \<le> 9"
    by (simp_all add: zoned_digit_def)
  from l have "low_nibble b = 0"
    using assms(2) by (cases rule: low_nibble_cases) (simp_all add: zoned_char_def h)
  with h have "unat b = 240" by (simp add: byte_of_nibbles)
  then have "word_of_nat (unat b) = (word_of_nat 240 :: byte)" by simp
  then show ?thesis by simp
next
  case False
  with assms(1) have "zoned_sign b" by simp
  then have "zoned_char b \<in> set ''{ABCDEFGHI}JKLMNOPQR''" by (rule zoned_char_sign)
  with assms(2) show ?thesis by simp
qed

lemma drop_underscores_id:
  "CHR ''_'' \<notin> set s \<Longrightarrow> p \<noteq> CHR ''_'' \<Longrightarrow> drop_underscores p s = Some s"
  by (induction s arbitrary: p) auto

lemma expand_repeat_id: "CHR ''('' \<notin> set s \<Longrightarrow> expand_repeat f s = s"
  by (induction s) auto

lemma display_decimal_places_nines:
  assumes "CHR ''V'' \<in> set pic" "after_first CHR ''V'' pic = replicate k CHR ''9''"
  shows "display_decimal_places pic = k"
proof -
  have "CHR ''('' \<notin> set (replicate k CHR ''9'')" by simp
  then have "expand_repeat CHR ''9'' (replicate k CHR ''9'') = replicate k CHR ''9''"
    by (rule expand_repeat_id)
  with assms show ?thesis by (simp add: display_decimal_places_def)
qed

lemma int_of_digits_zero: "int_of_digits (CHR ''0'' # s) = int_of_digits s"
  by (simp add: int_of_digits_def digit_val_def)


lemma to_lower_digit:
  assumes "is_digit d"
  shows "to_lower d = d"
proof -
  from assms have "d \<notin> set ''ABCDEFGHIJKLMNOPQRSTUVWXYZ''"
    by (auto simp: is_digit_def)
  then have h: "map_of (zip ''ABCDEFGHIJKLMNOPQRSTUVWXYZ'' ''abcdefghijklmnopqrstuvwxyz'') d = None"
    by (intro map_of_zip_is_None [THEN iffD2]) simp_all
  show ?thesis unfolding to_lower_def by (simp only: h option.case)
qed

lemma parse_inf_or_nan_digit:
  assumes "is_digit d"
  shows "parse_inf_or_nan neg (d # t) = None"
proof -
  from assms have "d \<noteq> CHR ''i''" "d \<noteq> CHR ''n''" by (auto simp: is_digit_def)
  then show ?thesis
    by (simp add: parse_inf_or_nan_def to_lower_digit [OF assms])
qed

lemma takeWhile_digits:
  "list_all is_digit ds \<Longrightarrow> \<not> is_digit c \<Longrightarrow> takeWhile is_digit (ds @ c # r) = ds"
  by (simp add: list_all_iff takeWhile_append2)

lemma dropWhile_digits:
  "list_all is_digit ds \<Longrightarrow> \<not> is_digit c \<Longrightarrow> dropWhile is_digit (ds @ c # r) = c # r"
  by (simp add: list_all_iff dropWhile_append2)

lemma takeWhile_all_digits: "list_all is_digit ds \<Longrightarrow> takeWhile is_digit ds = ds"
  by (simp add: list_all_iff)

lemma dropWhile_all_digits: "list_all is_digit ds \<Longrightarrow> dropWhile is_digit ds = []"
  by (simp add: list_all_iff)

lemma parse_exponent_single: "parse_exponent [c] = None"
  by simp

lemma parse_decimal_number:
  assumes "list_all is_digit ip" "ip \<noteq> []" "list_all is_digit fp" "fp \<noteq> []"
  shows "parse_decimal (ip @ CHR ''.'' # fp)
           = Some (of_int (int_of_digits (ip @ fp)) / 10 ^ length fp)"
proof -
  have nd: "\<not> is_digit CHR ''.''" by (simp add: is_digit_def)
  have t: "takeWhile is_digit (ip @ CHR ''.'' # fp) = ip"
    using assms(1) nd by (rule takeWhile_digits)
  have d: "dropWhile is_digit (ip @ CHR ''.'' # fp) = CHR ''.'' # fp"
    using assms(1) nd by (rule dropWhile_digits)
  have "scale10 (of_int (int_of_digits (ip @ fp))) (0 - int (length fp))
          = of_int (int_of_digits (ip @ fp)) / 10 ^ length fp"
    using assms(4) by (simp add: scale10_def)
  then show ?thesis
    using assms(2)
    by (simp add: parse_decimal_def t d Let_def
          takeWhile_all_digits [OF assms(3)] dropWhile_all_digits [OF assms(3)])
qed

lemma parse_decimal_sign:
  assumes "list_all is_digit ip" "ip \<noteq> []" "list_all is_digit fp" "\<not> is_digit c"
  shows "parse_decimal (ip @ CHR ''.'' # fp @ [c]) = None"
proof -
  have nd: "\<not> is_digit CHR ''.''" by (simp add: is_digit_def)
  have t: "takeWhile is_digit (ip @ CHR ''.'' # fp @ [c]) = ip"
    using assms(1) nd by (rule takeWhile_digits)
  have d: "dropWhile is_digit (ip @ CHR ''.'' # fp @ [c]) = CHR ''.'' # fp @ [c]"
    using assms(1) nd by (rule dropWhile_digits)
  show ?thesis
    using assms(2)
    by (simp add: parse_decimal_def t d Let_def
          takeWhile_digits [OF assms(3,4), of "[]"] dropWhile_digits [OF assms(3,4), of "[]"])
qed

lemma py_float_unsigned:
  assumes "is_digit d" "CHR ''_'' \<notin> set (d # t)" "\<not> num_isspace (last (d # t))"
  shows "py_float (d # t) = map_option round_double (parse_decimal (d # t))"
proof -
  have "\<not> num_isspace (hd (d # t))"
    using digit_char_facts(2) [OF assms(1)] by simp
  then have s: "num_strip (d # t) = d # t"
    using assms(3) by (intro num_strip_id) simp_all
  have "CHR 0x00 \<noteq> CHR ''_''" by simp
  with assms(2) have u: "drop_underscores (CHR 0x00) (d # t) = Some (d # t)"
    by (rule drop_underscores_id)
  have p: "parse_unsigned_float False (d # t) = map_option round_double (parse_decimal (d # t))"
    by (simp add: parse_unsigned_float_def parse_inf_or_nan_digit [OF assms(1)])
  have "py_float (d # t) = parse_unsigned_float False (d # t)"
    unfolding py_float_def s u using digit_char_facts(5,6) [OF assms(1)] by simp
  with p show ?thesis by simp
qed

lemma pointed_text_value:
  assumes ip: "list_all is_digit ip" "ip \<noteq> []" and fp: "list_all is_digit fp"
      and c: "\<not> num_isspace c" "c \<noteq> CHR ''_''"
  shows "py_float (ip @ CHR ''.'' # fp @ [c])
           = (if is_digit c
              then Some (round_double (of_int (int_of_digits (ip @ fp @ [c])) / 10 ^ Suc (length fp)))
              else None)"
proof -
  from ip(2) obtain d t where dt: "ip = d # t" by (cases ip) auto
  with ip(1) have d: "is_digit d" by simp
  have us: "CHR ''_'' \<notin> set (ip @ CHR ''.'' # fp @ [c])"
    using ip(1) fp c(2) digit_char_facts(3) by (auto simp: list_all_iff)
  have fl: "py_float (ip @ CHR ''.'' # fp @ [c])
              = map_option round_double (parse_decimal (ip @ CHR ''.'' # fp @ [c]))"
  proof -
    have "py_float (d # (t @ CHR ''.'' # fp @ [c]))
            = map_option round_double (parse_decimal (d # (t @ CHR ''.'' # fp @ [c])))"
      using d us c(1) unfolding dt by (intro py_float_unsigned) simp_all
    then show ?thesis unfolding dt by simp
  qed
  show ?thesis
  proof (cases "is_digit c")
    case True
    with fp have fd: "list_all is_digit (fp @ [c])" by simp
    have "parse_decimal (ip @ CHR ''.'' # (fp @ [c]))
            = Some (of_int (int_of_digits (ip @ (fp @ [c]))) / 10 ^ length (fp @ [c]))"
      using ip fd by (intro parse_decimal_number) simp_all
    then have "parse_decimal (ip @ CHR ''.'' # fp @ [c])
            = Some (of_int (int_of_digits (ip @ fp @ [c])) / 10 ^ Suc (length fp))"
      by simp
    with True fl show ?thesis by simp
  next
    case False
    have "parse_decimal (ip @ CHR ''.'' # fp @ [c]) = None"
      using ip fp False by (rule parse_decimal_sign)
    with False fl show ?thesis by simp
  qed
qed

lemma zoned_text_value:
  assumes ds: "list_all is_digit ds" and k: "0 < k" "k \<le> length ds + 1"
      and c: "\<not> num_isspace c" "c \<noteq> CHR ''_''"
  shows "py_float (insert_point k (ds @ [c]))
           = (if is_digit c then Some (round_double (of_int (int_of_digits (ds @ [c])) / 10 ^ k))
              else None)"
proof (cases "k \<le> length ds")
  case True
  let ?n = "Suc (length ds) - k"
  let ?ip = "take ?n ds" and ?fp = "drop ?n ds"
  from True k have n: "?n \<le> length ds" "0 < ?n" by simp_all
  from ds have ipd: "list_all is_digit ?ip" and fpd: "list_all is_digit ?fp"
    by (auto simp: list_all_iff dest: in_set_takeD in_set_dropD)
  from n k have ipne: "?ip \<noteq> []" by auto
  have len: "Suc (length ?fp) = k" using True k by simp
  have tk: "take (length (ds @ [c]) - k) (ds @ [c]) = ?ip" using n by simp
  have dr: "drop (length (ds @ [c]) - k) (ds @ [c]) = ?fp @ [c]" using n by simp
  have ip_text: "insert_point k (ds @ [c]) = ?ip @ CHR ''.'' # ?fp @ [c]"
    unfolding insert_point_def py_drop_last_n_def py_last_n_def ljust_def tk dr
    using True k by simp
  have "?ip @ ?fp @ [c] = ds @ [c]" by simp
  with pointed_text_value [OF ipd ipne fpd c] show ?thesis
    unfolding ip_text len by (simp only:)
next
  case False
  with k have keq: "k = Suc (length ds)" by simp
  have ip_text: "insert_point (Suc (length ds)) (ds @ [c]) = ''0'' @ CHR ''.'' # ds @ [c]"
    unfolding insert_point_def py_drop_last_n_def py_last_n_def ljust_def by simp
  have z: "list_all is_digit ''0''" "''0'' \<noteq> []" by (simp_all add: is_digit_def)
  have "int_of_digits (''0'' @ ds @ [c]) = int_of_digits (ds @ [c])"
    using int_of_digits_zero [of "ds @ [c]"] by simp
  with pointed_text_value [OF z ds c] show ?thesis
    unfolding keq ip_text by (simp only:)
qed

lemma py_int_digits:
  assumes "list_all is_digit s" "s \<noteq> []"
  shows "py_int s = (if length s \<le> 4300 then Some (int_of_digits s) else None)"
proof -
  from assms(2) obtain d t where dt: "s = d # t" by (cases s) auto
  with assms(1) have d: "is_digit d" by simp
  from assms have l: "is_digit (last s)" by (simp add: list_all_iff)
  have "\<not> num_isspace (hd s)" using d dt digit_char_facts(2) by simp
  moreover have "\<not> num_isspace (last s)" using l digit_char_facts(2) by blast
  ultimately have st: "num_strip s = s" using assms(2) by (intro num_strip_id)
  have us: "CHR ''_'' \<notin> set s"
    using assms(1) digit_char_facts(3) by (auto simp: list_all_iff)
  have "CHR 0x00 \<noteq> CHR ''_''" by simp
  with us have u: "drop_underscores (CHR 0x00) s = Some s" by (rule drop_underscores_id)
  have un: "unsigned_int s = (if length s \<le> 4300 then Some (int_of_digits s) else None)"
    using assms by (simp add: unsigned_int_def u)
  have "py_int s = unsigned_int s"
    unfolding py_int_def st using digit_char_facts(5,6) [OF d] by (simp add: dt)
  with un show ?thesis by simp
qed

lemma py_int_sign:
  assumes ds: "list_all is_digit ds"
      and c: "\<not> is_digit c" "\<not> num_isspace c" "c \<noteq> CHR ''_''" "c \<noteq> CHR ''-''" "c \<noteq> CHR ''+''"
  shows "py_int (ds @ [c]) = None"
proof -
  let ?s = "ds @ [c]"
  have hd_facts: "\<not> num_isspace (hd ?s) \<and> hd ?s \<noteq> CHR ''-'' \<and> hd ?s \<noteq> CHR ''+''"
  proof (cases ds)
    case Nil
    with c show ?thesis by simp
  next
    case (Cons d t)
    with ds have "is_digit d" by simp
    from digit_char_facts(2,5,6) [OF this] Cons show ?thesis by simp
  qed
  then have st: "num_strip ?s = ?s" using c(2) by (intro num_strip_id) simp_all
  have us: "CHR ''_'' \<notin> set ?s"
    using ds c(3) digit_char_facts(3) by (auto simp: list_all_iff)
  have "CHR 0x00 \<noteq> CHR ''_''" by simp
  with us have u: "drop_underscores (CHR 0x00) ?s = Some ?s" by (rule drop_underscores_id)
  have un: "unsigned_int ?s = None"
    using c(1) by (simp add: unsigned_int_def u)
  obtain d t where dt: "?s = d # t" by (cases ?s) auto
  with hd_facts have "d \<noteq> CHR ''-''" "d \<noteq> CHR ''+''" by simp_all
  then have "py_int ?s = unsigned_int ?s"
    unfolding py_int_def st by (simp add: dt)
  with un show ?thesis by simp
qed


text \<open>
  For \<open>05 AMT PIC S9(3)V99.\<close> the bytes \<open>F0 F0 F1 F2 C3\<close> do not decode to the
  number +1.23, nor \<open>F0 F0 F1 F2 D3\<close> to -1.23. \<open>extract_from_record\<close>, which is what
  the record walker calls, returns the text of the bytes in code page 037, where \<open>C3\<close>
  is the letter \<open>C\<close> and \<open>D3\<close> the letter \<open>L\<close>: the converted record holds \<open>'0012L'\<close>.
  \<open>to_dict_value\<close>, which nothing calls, puts the point in and returns the text, which
  is no number. And the scale it applies is not always the one the picture implies: for
  \<open>S9(3)V9(2)\<close> it counts three places, the \<open>9\<close> in front of \<open>(2)\<close> and two more, and
  makes 0.123 of the digits \<open>00123\<close>. A BLANK WHEN ZERO field whose digits are all zero
  is extracted as spaces.
\<close>

theorem C1_sign_zone_stays_text:
  "DisplayHandler_extract_from_record [0xF0, 0xF0, 0xF1, 0xF2, 0xC3] amt_field = ''0012C''
   \<and> DisplayHandler_extract_from_record [0xF0, 0xF0, 0xF1, 0xF2, 0xD3] amt_field = ''0012L''
   \<and> convert display_extract amt_structure [0xF0, 0xF0, 0xF1, 0xF2, 0xD3]
       = Inr [(''R'', PyDict [(''AMT'', PyStr ''0012L'')])]
   \<and> DisplayHandler_to_dict_value ''0012C'' amt_field = PyStr ''001.2C''
   \<and> DisplayHandler_to_dict_value ''0012L'' amt_field = PyStr ''001.2L''
   \<and> DisplayHandler_to_dict_value ''00123'' (amt_field\<lparr>picture := Some ''S9(3)V9(2)''\<rparr>)
       = PyFloat (round_double (123 / 1000))
   \<and> DisplayHandler_extract_from_record [0xF0, 0xF0, 0xF0, 0xF0, 0xF0]
         (amt_field\<lparr>blank_when_zero := True\<rparr>) = ''     ''"
  by code_simp

text \<open>
  C1, as the code has it. Take a DISPLAY numeric field (a picture with a \<open>9\<close> and
  without \<open>X\<close> or \<open>A\<close>) whose bytes are zoned digits \<open>F0\<close> to \<open>F9\<close>, but for the last
  byte, which may have the zone \<open>C\<close> or \<open>D\<close> instead, and not all \<open>F0\<close> when the field
  is BLANK WHEN ZERO. The extraction returns the characters of the bytes in code page
  037, with neither a sign nor a scale: the last byte with the zone \<open>C\<close> or \<open>D\<close>
  becomes a letter or a brace.
  \<open>to_dict_value\<close>, on that text, takes no sign from the zone either. When the picture has
  a \<open>V\<close> followed by \<open>k\<close> nines, \<open>k\<close> at least one and at most the number of bytes, it
  returns the double nearest to the number the digits spell divided by \<open>10^k\<close> when the
  last byte is a digit, and the text with the point in front of its last \<open>k\<close> characters
  otherwise. When the picture has neither \<open>V\<close> nor a point, it returns the integer the
  digits spell when the last byte is a digit and there are no more than 4300 of them, and
  the text otherwise.
\<close>

theorem C1_zoned_display:
  assumes pic: "picture f = Some pic" "CHR ''X'' \<notin> set pic" "CHR ''A'' \<notin> set pic"
               "CHR ''9'' \<in> set pic"
      and flags: "blank_when_zero f \<longrightarrow> list_ex (\<lambda>b. b \<noteq> 0xF0) (body @ [lastb])"
      and data: "field_data record f = body @ [lastb]"
      and body: "list_all zoned_digit body"
      and lastb: "zoned_digit lastb \<or> zoned_sign lastb"
  shows "DisplayHandler_extract_from_record record f = map zoned_char (body @ [lastb])
       \<and> (CHR ''V'' \<in> set pic \<and> after_first CHR ''V'' pic = replicate k CHR ''9''
            \<and> 0 < k \<and> k \<le> length (body @ [lastb])
          \<longrightarrow> DisplayHandler_to_dict_value (DisplayHandler_extract_from_record record f) f
                = (if zoned_digit lastb
                   then PyFloat (round_double
                          (of_int (int_of_digits (map zoned_char (body @ [lastb]))) / 10 ^ k))
                   else PyStr (insert_point k (map zoned_char (body @ [lastb])))))
       \<and> (CHR ''V'' \<notin> set pic \<and> CHR ''.'' \<notin> set pic
          \<longrightarrow> DisplayHandler_to_dict_value (DisplayHandler_extract_from_record record f) f
                = (if zoned_digit lastb \<and> length (body @ [lastb]) \<le> 4300
                   then PyInt (int_of_digits (map zoned_char (body @ [lastb])))
                   else PyStr (map zoned_char (body @ [lastb]))))"
proof -
  let ?ds = "map zoned_char body" and ?c = "zoned_char lastb"
  let ?t = "map zoned_char (body @ [lastb])"
  have t: "?t = ?ds @ [?c]" by simp
  have ds: "list_all is_digit ?ds"
    using body by (simp add: list_all_iff zoned_char_digit)
  have c: "\<not> py_isspace ?c \<and> \<not> num_isspace ?c \<and> ?c \<noteq> CHR ''_'' \<and> ?c \<noteq> CHR ''.''
           \<and> ?c \<noteq> CHR ''-'' \<and> ?c \<noteq> CHR ''+'' \<and> (is_digit ?c = zoned_digit lastb)"
  proof (cases "zoned_digit lastb")
    case True
    then have "is_digit ?c" by (rule zoned_char_digit)
    with True digit_char_facts [of ?c] show ?thesis by simp
  next
    case False
    with lastb have "zoned_sign lastb" by simp
    then have "?c \<in> set ''{ABCDEFGHI}JKLMNOPQR''" by (rule zoned_char_sign)
    from sign_char_facts [OF this] False show ?thesis by simp
  qed
  have zoned: "list_all (\<lambda>b. zoned_digit b \<or> zoned_sign b) (body @ [lastb])"
    using body lastb by (simp add: list_all_iff)
  have dec: "decode_cp037 (body @ [lastb]) = ?t"
    using zoned by (rule decode_zoned)
  have nospace: "\<forall>x \<in> set ?t. \<not> py_isspace x"
    using ds c digit_char_facts(1) by (auto simp: list_all_iff)
  have nonzero: "?t \<noteq> replicate (length ?t) CHR ''0''" if "blank_when_zero f"
  proof
    assume z: "?t = replicate (length ?t) CHR ''0''"
    from that flags obtain b where b: "b \<in> set (body @ [lastb])" "b \<noteq> 0xF0"
      by (auto simp: list_ex_iff)
    from b(1) zoned have zb: "zoned_digit b \<or> zoned_sign b"
      unfolding list_all_iff by blast
    from b(1) have "zoned_char b \<in> set ?t" by auto
    then have "zoned_char b \<in> set (replicate (length ?t) CHR ''0'')"
      using z by (simp only:)
    then have "zoned_char b = CHR ''0''" by auto
    from zoned_char_zero [OF zb this] b(2) show False by simp
  qed
  note strip = py_strip_no_space [OF nospace]
  have "DisplayHandler_ebcdic_to_ascii (body @ [lastb]) f
          = (if blank_when_zero f \<and> ?t = replicate (length ?t) CHR ''0''
             then replicate (length ?t) CHR '' '' else ?t)"
    by (simp only: DisplayHandler_ebcdic_to_ascii_def dec strip if_cancel Let_def)
  moreover have "\<not> (blank_when_zero f \<and> ?t = replicate (length ?t) CHR ''0'')"
    using nonzero by blast
  ultimately have ascii: "DisplayHandler_ebcdic_to_ascii (body @ [lastb]) f = ?t"
    by (simp only: if_False)
  have ext: "DisplayHandler_extract_from_record record f = ?t"
    using data ascii by (simp add: DisplayHandler_extract_from_record_def field_data_def)
  have picne: "pic \<noteq> []" using pic(4) by auto
  have dsdot: "CHR ''.'' \<notin> set ?ds"
    using ds digit_char_facts(4) unfolding list_all_iff by blast
  have nodot: "CHR ''.'' \<notin> set (?ds @ [?c])"
    using dsdot c by auto
  have scaled: "DisplayHandler_to_dict_value ?t f
                = (if zoned_digit lastb
                   then PyFloat (round_double (of_int (int_of_digits ?t) / 10 ^ k))
                   else PyStr (insert_point k ?t))"
    if v: "CHR ''V'' \<in> set pic" "after_first CHR ''V'' pic = replicate k CHR ''9''"
      and k: "0 < k" "k \<le> length (body @ [lastb])"
  proof -
    have dp: "display_decimal_places pic = k"
      using v by (rule display_decimal_places_nines)
    from k(2) have len: "k \<le> length ?ds + 1" by simp
    have fl: "py_float (insert_point k (?ds @ [?c]))
                = (if zoned_digit lastb
                   then Some (round_double (of_int (int_of_digits (?ds @ [?c])) / 10 ^ k))
                   else None)"
      using zoned_text_value [OF ds k(1) len, of ?c] c by simp
    have "DisplayHandler_to_dict_value (?ds @ [?c]) f
            = (case py_float (insert_point k (?ds @ [?c])) of
                 Some x \<Rightarrow> PyFloat x
               | None \<Rightarrow> PyStr (insert_point k (?ds @ [?c])))"
      using pic picne v(1) k(1) nodot
      by (simp add: DisplayHandler_to_dict_value_def dp Let_def)
    then show ?thesis unfolding fl t by simp
  qed
  have whole: "DisplayHandler_to_dict_value ?t f
                = (if zoned_digit lastb \<and> length (body @ [lastb]) \<le> 4300
                   then PyInt (int_of_digits ?t)
                   else PyStr ?t)"
    if v: "CHR ''V'' \<notin> set pic" "CHR ''.'' \<notin> set pic"
  proof -
    have i: "py_int (?ds @ [?c])
               = (if zoned_digit lastb \<and> length (body @ [lastb]) \<le> 4300
                  then Some (int_of_digits (?ds @ [?c])) else None)"
    proof (cases "zoned_digit lastb")
      case True
      with c ds have "list_all is_digit (?ds @ [?c])" by simp
      from py_int_digits [OF this] True show ?thesis by simp
    next
      case False
      with c have "\<not> is_digit ?c" by simp
      from py_int_sign [OF ds this] c False show ?thesis by simp
    qed
    have "DisplayHandler_to_dict_value (?ds @ [?c]) f
            = (case py_int (?ds @ [?c]) of
                 Some i \<Rightarrow> PyInt i
               | None \<Rightarrow> PyStr (?ds @ [?c]))"
      using pic picne v by (simp add: DisplayHandler_to_dict_value_def)
    then show ?thesis unfolding i t by simp
  qed
  show ?thesis unfolding ext using scaled whole by blast
qed


theorem C1_zoned_display_witness:
  "picture amt_field = Some ''S9(3)V99''
   \<and> CHR ''X'' \<notin> set ''S9(3)V99'' \<and> CHR ''A'' \<notin> set ''S9(3)V99''
   \<and> CHR ''9'' \<in> set ''S9(3)V99''
   \<and> \<not> blank_when_zero amt_field
   \<and> field_data [0xF0, 0xF0, 0xF1, 0xF2, 0xF3] amt_field = [0xF0, 0xF0, 0xF1, 0xF2] @ [0xF3]
   \<and> list_all zoned_digit [0xF0, 0xF0, 0xF1, 0xF2]
   \<and> zoned_digit 0xF3
   \<and> CHR ''V'' \<in> set ''S9(3)V99''
   \<and> after_first CHR ''V'' ''S9(3)V99'' = replicate 2 CHR ''9''
   \<and> (0::nat) < 2 \<and> 2 \<le> length ([0xF0, 0xF0, 0xF1, 0xF2] @ [0xF3 :: byte])
   \<and> DisplayHandler_extract_from_record [0xF0, 0xF0, 0xF1, 0xF2, 0xF3] amt_field = ''00123''
   \<and> DisplayHandler_to_dict_value
         (DisplayHandler_extract_from_record [0xF0, 0xF0, 0xF1, 0xF2, 0xF3] amt_field) amt_field
       = PyFloat (Finite (2769713770832855 / 2251799813685248))
   \<and> picture (amt_field\<lparr>picture := Some ''S9(5)'', blank_when_zero := True\<rparr>) = Some ''S9(5)''
   \<and> blank_when_zero (amt_field\<lparr>picture := Some ''S9(5)'', blank_when_zero := True\<rparr>)
   \<and> list_ex (\<lambda>b. b \<noteq> 0xF0) ([0xF0, 0xF0, 0xF1, 0xF2] @ [0xF3 :: byte])
   \<and> CHR ''V'' \<notin> set ''S9(5)'' \<and> CHR ''.'' \<notin> set ''S9(5)''
   \<and> DisplayHandler_to_dict_value
         (DisplayHandler_extract_from_record [0xF0, 0xF0, 0xF1, 0xF2, 0xF3]
            (amt_field\<lparr>picture := Some ''S9(5)'', blank_when_zero := True\<rparr>))
         (amt_field\<lparr>picture := Some ''S9(5)'', blank_when_zero := True\<rparr>)
       = PyInt 123"
proof -
  let ?r = "[0xF0, 0xF0, 0xF1, 0xF2, 0xF3] :: bytes"
  let ?g = "amt_field\<lparr>picture := Some ''S9(5)'', blank_when_zero := True\<rparr>"
  have h1: "picture amt_field = Some ''S9(3)V99''"
    by (simp add: amt_field_def new_field_def)
  have h2: "CHR ''X'' \<notin> set ''S9(3)V99''" "CHR ''A'' \<notin> set ''S9(3)V99''"
           "CHR ''9'' \<in> set ''S9(3)V99''"
    by simp_all
  have h3: "\<not> blank_when_zero amt_field"
    by (simp add: amt_field_def new_field_def)
  then have h3': "blank_when_zero amt_field
                    \<longrightarrow> list_ex (\<lambda>b. b \<noteq> 0xF0) ([0xF0, 0xF0, 0xF1, 0xF2] @ [0xF3 :: byte])"
    by (simp only: simp_thms)
  have h4: "field_data ?r amt_field = [0xF0, 0xF0, 0xF1, 0xF2] @ [0xF3]"
    by code_simp
  have h5: "list_all zoned_digit [0xF0, 0xF0, 0xF1, 0xF2]" by code_simp
  have h6: "zoned_digit 0xF3" by code_simp
  have h7: "CHR ''V'' \<in> set ''S9(3)V99''" by simp
  have h8: "after_first CHR ''V'' ''S9(3)V99'' = replicate 2 CHR ''9''" by code_simp
  have h9: "(0::nat) < 2" "2 \<le> length ([0xF0, 0xF0, 0xF1, 0xF2] @ [0xF3 :: byte])"
    by simp_all
  have g1: "picture ?g = Some ''S9(5)''" by simp
  have g2: "CHR ''X'' \<notin> set ''S9(5)''" "CHR ''A'' \<notin> set ''S9(5)''"
           "CHR ''9'' \<in> set ''S9(5)''"
    by simp_all
  have g3: "blank_when_zero ?g" by simp
  have g3': "list_ex (\<lambda>b. b \<noteq> 0xF0) ([0xF0, 0xF0, 0xF1, 0xF2] @ [0xF3 :: byte])" by simp
  have g4: "field_data ?r ?g = [0xF0, 0xF0, 0xF1, 0xF2] @ [0xF3]"
    by code_simp
  have g7: "CHR ''V'' \<notin> set ''S9(5)''" "CHR ''.'' \<notin> set ''S9(5)''" by simp_all
  have r1: "map zoned_char ([0xF0, 0xF0, 0xF1, 0xF2] @ [0xF3]) = ''00123''"
    by code_simp
  have r2: "round_double (of_int (int_of_digits ''00123'') / 10 ^ 2)
              = Finite (2769713770832855 / 2251799813685248)"
    by code_simp
  have r3: "int_of_digits ''00123'' = 123" by code_simp
  note a = C1_zoned_display [OF h1 h2 h3' h4 h5 disjI1 [OF h6], where k = 2]
  note b = C1_zoned_display [OF g1 g2 impI [OF g3'] g4 h5 disjI1 [OF h6], where k = 2]
  have a1: "DisplayHandler_extract_from_record ?r amt_field = ''00123''"
    using a [THEN conjunct1] r1 by (simp only:)
  have a2: "DisplayHandler_to_dict_value (DisplayHandler_extract_from_record ?r amt_field) amt_field
              = PyFloat (Finite (2769713770832855 / 2251799813685248))"
    using a [THEN conjunct2, THEN conjunct1] h6 h7 h8 h9 r1 r2 by (simp only: simp_thms if_True)
  have b2: "DisplayHandler_to_dict_value (DisplayHandler_extract_from_record ?r ?g) ?g = PyInt 123"
    using b [THEN conjunct2, THEN conjunct2] h6 g7 r1 r3 by (simp only: simp_thms if_True) simp
  from h1 h2 h3 h4 h5 h6 h7 h8 h9 a1 a2 g1 g3 g3' g7 b2 show ?thesis
    by (intro conjI)
qed

end
